theory Spec2Isabelle
  imports Main "HOL-Library.Sublist" "HOL-Library.Char_ord" "HOL-Library.List_Lexorder"
begin

section \<open>Errors and strings\<close>

text \<open>
  The services throw JavaScript exceptions. An exception is a value of \<open>error\<close>, and a
  function that may throw returns \<open>error + 'a\<close> (\<open>Inl\<close> the exception). \<open>Error m\<close> is
  \<^verbatim>\<open>new Error(m)\<close>; the other constructors are the exceptions the browser raises itself:
  a \<open>TypeError\<close> on a property read of \<^verbatim>\<open>null\<close>, a \<open>SyntaxError\<close> from
  \<^verbatim>\<open>querySelector\<close> on a selector string that is not a valid selector, a
  \<open>ConstraintError\<close> from \<^verbatim>\<open>IDBObjectStore.add\<close> on a key that is already stored, and
  the rejection of \<^verbatim>\<open>fetch\<close> on a transport failure.
\<close>

datatype error =
    Error string
  | TypeError string
  | SyntaxError string
  | ConstraintError string
  | FetchFailed string

text \<open>The four errors of the specification's taxonomy, as the code raises them.\<close>

definition MalformedFeed :: error where
  "MalformedFeed = Error ''Invalid RSS/Atom feed''"

definition NotInitialized :: error where
  "NotInitialized = Error ''Database not initialized''"

definition MissingCredential :: error where
  "MissingCredential = Error ''API key is required''"

definition bindE :: "error + 'a \<Rightarrow> ('a \<Rightarrow> error + 'b) \<Rightarrow> error + 'b" where
  "bindE m f = (case m of Inl e \<Rightarrow> Inl e | Inr a \<Rightarrow> f a)"

text \<open>
  \<^verbatim>\<open>a || b\<close> on strings: \<open>b\<close> is evaluated only when \<open>a\<close> is the empty string (the one
  falsy string), so an exception of \<open>b\<close> is raised only then.
\<close>

definition orElse :: "error + string \<Rightarrow> error + string \<Rightarrow> error + string" where
  "orElse a b = (case a of Inl e \<Rightarrow> Inl e | Inr s \<Rightarrow> if s \<noteq> [] then Inr s else b)"

text \<open>\<^verbatim>\<open>Array.prototype.map\<close> with a callback that may throw: the first exception ends it.\<close>

fun mapE :: "('a \<Rightarrow> error + 'b) \<Rightarrow> 'a list \<Rightarrow> error + 'b list" where
  "mapE f [] = Inr []"
| "mapE f (x # xs) =
     (case f x of
        Inl e \<Rightarrow> Inl e
      | Inr y \<Rightarrow> (case mapE f xs of Inl e \<Rightarrow> Inl e | Inr ys \<Rightarrow> Inr (y # ys)))"

text \<open>
  Strings are lists of 8-bit characters, read as the code units U+0000 to U+00FF.
  \<^verbatim>\<open>String.prototype.trim\<close> strips white space and line terminators from both ends; in
  this range they are TAB, LF, VT, FF, CR, SPACE and NBSP.
\<close>

definition isWhiteSpace :: "char \<Rightarrow> bool" where
  "isWhiteSpace c =
     (c \<in> set [CHR 0x09, CHR 0x0A, CHR 0x0B, CHR 0x0C, CHR 0x0D, CHR 0x20, CHR 0xA0])"

definition trim :: "string \<Rightarrow> string" where
  "trim s = rev (dropWhile isWhiteSpace (rev (dropWhile isWhiteSpace s)))"

text \<open>
  The white space of HTML and CSS (ASCII white space) is TAB, LF, FF, CR and SPACE: it
  separates the tokens of a \<^verbatim>\<open>class\<close> attribute and surrounds the parts of a selector.
\<close>

definition isAsciiWhitespace :: "char \<Rightarrow> bool" where
  "isAsciiWhitespace c = (c \<in> set [CHR 0x09, CHR 0x0A, CHR 0x0C, CHR 0x0D, CHR 0x20])"

definition stripAsciiWhitespace :: "string \<Rightarrow> string" where
  "stripAsciiWhitespace s =
     rev (dropWhile isAsciiWhitespace (rev (dropWhile isAsciiWhitespace s)))"

text \<open>
  ASCII lower and upper case, which change the letters A to Z and a to z only: the
  browser compares class names in ASCII lower case in a quirks-mode document, and
  \<^verbatim>\<open>tagName\<close> is the ASCII upper case of an HTML element's name.
\<close>

definition asciiLowerChar :: "char \<Rightarrow> char" where
  "asciiLowerChar c =
     (case map_of (zip ''ABCDEFGHIJKLMNOPQRSTUVWXYZ'' ''abcdefghijklmnopqrstuvwxyz'') c of
        Some l \<Rightarrow> l
      | None \<Rightarrow> c)"

definition asciiLowerCase :: "string \<Rightarrow> string" where
  "asciiLowerCase s = map asciiLowerChar s"

definition toUpperChar :: "char \<Rightarrow> char" where
  "toUpperChar c =
     (case map_of (zip ''abcdefghijklmnopqrstuvwxyz'' ''ABCDEFGHIJKLMNOPQRSTUVWXYZ'') c of
        Some u \<Rightarrow> u
      | None \<Rightarrow> c)"

text \<open>
  \<^verbatim>\<open>String.prototype.toLowerCase\<close>: in the range U+0000 to U+00FF it changes the letters
  A to Z and the letters U+00C0 to U+00DE but the multiplication sign U+00D7, each to
  the character 32 places on.
\<close>

definition toLowerChar :: "char \<Rightarrow> char" where
  "toLowerChar c =
     (case map_of
        (zip (''ABCDEFGHIJKLMNOPQRSTUVWXYZ'' @
              [CHR 0xC0, CHR 0xC1, CHR 0xC2, CHR 0xC3, CHR 0xC4, CHR 0xC5, CHR 0xC6, CHR 0xC7,
               CHR 0xC8, CHR 0xC9, CHR 0xCA, CHR 0xCB, CHR 0xCC, CHR 0xCD, CHR 0xCE, CHR 0xCF,
               CHR 0xD0, CHR 0xD1, CHR 0xD2, CHR 0xD3, CHR 0xD4, CHR 0xD5, CHR 0xD6,
               CHR 0xD8, CHR 0xD9, CHR 0xDA, CHR 0xDB, CHR 0xDC, CHR 0xDD, CHR 0xDE])
             (''abcdefghijklmnopqrstuvwxyz'' @
              [CHR 0xE0, CHR 0xE1, CHR 0xE2, CHR 0xE3, CHR 0xE4, CHR 0xE5, CHR 0xE6, CHR 0xE7,
               CHR 0xE8, CHR 0xE9, CHR 0xEA, CHR 0xEB, CHR 0xEC, CHR 0xED, CHR 0xEE, CHR 0xEF,
               CHR 0xF0, CHR 0xF1, CHR 0xF2, CHR 0xF3, CHR 0xF4, CHR 0xF5, CHR 0xF6,
               CHR 0xF8, CHR 0xF9, CHR 0xFA, CHR 0xFB, CHR 0xFC, CHR 0xFD, CHR 0xFE])) c of
        Some l \<Rightarrow> l
      | None \<Rightarrow> c)"

definition toLowerCase :: "string \<Rightarrow> string" where
  "toLowerCase s = map toLowerChar s"

text \<open>\<^verbatim>\<open>hay.includes(needle)\<close>: \<open>needle\<close> occurs in \<open>hay\<close> as a contiguous run.\<close>

fun str_includes :: "string \<Rightarrow> string \<Rightarrow> bool" where
  "str_includes [] q = (q = [])"
| "str_includes (c # cs) q = (prefix q (c # cs) \<or> str_includes cs q)"

text \<open>
  Decimal rendering of an integer in a template literal (the values rendered here, a
  list index and \<^verbatim>\<open>Date.now()\<close>, stay far below the size at which JavaScript changes to
  exponent notation).
\<close>

function show_nat :: "nat \<Rightarrow> string" where
  "show_nat n =
     (if n < 10 then [''0123456789'' ! n]
      else show_nat (n div 10) @ [''0123456789'' ! (n mod 10)])"
  by pat_completeness auto
termination
  by (relation "measure id") auto

definition show_int :: "int \<Rightarrow> string" where
  "show_int i = (if i < 0 then CHR ''-'' # show_nat (nat (- i)) else show_nat (nat i))"

section \<open>The DOM\<close>

text \<open>
  \<^verbatim>\<open>DOMParser.parseFromString\<close> is the browser's; the model starts from the document it
  returns. A node is a text node (CDATA sections included), a comment (or any other node
  that is neither text nor element), or an element with its local name, its attributes
  in source order and its child nodes. A document is the list of the children of the
  \<^verbatim>\<open>Document\<close> node. A document has a mode, fixed by the parser: an XML document is in
  no-quirks mode, and so is an HTML page that starts with \<^verbatim>\<open><!DOCTYPE html>\<close>; an HTML
  page without a doctype is in quirks mode. The mode is an argument of the queries.
\<close>

datatype mode = NoQuirks | Quirks

datatype node =
    Text string
  | Comment string
  | Element string "(string \<times> string) list" "node list"

type_synonym document = "node list"

fun childNodes :: "node \<Rightarrow> node list" where
  "childNodes (Element n as cs) = cs"
| "childNodes _ = []"

fun textContent :: "node \<Rightarrow> string" where
  "textContent (Text t) = t"
| "textContent (Comment c) = c"
| "textContent (Element n as cs) =
     concat (map (\<lambda>c. case c of Comment _ \<Rightarrow> [] | _ \<Rightarrow> textContent c) cs)"

text \<open>\<^verbatim>\<open>el.getAttribute(name)\<close>: the value of the first attribute of that name, or null.\<close>

fun getAttribute :: "node \<Rightarrow> string \<Rightarrow> string option" where
  "getAttribute (Element n as cs) a = map_of as a"
| "getAttribute _ a = None"

text \<open>The elements of a subtree, the root first, in document order.\<close>

fun subtree :: "node \<Rightarrow> node list" where
  "subtree (Element n as cs) = Element n as cs # concat (map subtree cs)"
| "subtree _ = []"

definition elements :: "node list \<Rightarrow> node list" where
  "elements ns = concat (map subtree ns)"

subsection \<open>Selectors\<close>

text \<open>
  The selector strings of the source are of three shapes: a type selector \<^verbatim>\<open>article\<close>, a
  class selector \<^verbatim>\<open>.content\<close>, and a type selector with an attribute test
  \<^verbatim>\<open>meta[name="author"]\<close>; a selector list separates them by commas. A string of any
  other shape is rejected here. The one such string in the source is \<^verbatim>\<open>dc:creator\<close>
  (rssParser.ts, line 51). In a selector a colon starts a pseudo-class, so the string
  reads as the type selector \<^verbatim>\<open>dc\<close> with the pseudo-class \<^verbatim>\<open>:creator\<close>; there is no
  such pseudo-class, a selector with an unknown pseudo-class is invalid (Selectors
  Level 4, section 3.9), and \<^verbatim>\<open>querySelector\<close> throws a \<open>SyntaxError\<close> for an invalid
  selector (DOM Standard, "scope-match a selectors string"), in an XML document as in
  an HTML one. A namespaced element is matched by its local name, \<^verbatim>\<open>creator\<close>, or with
  the colon escaped, \<^verbatim>\<open>dc\\:creator\<close>.
\<close>

datatype compound =
    TypeSel string
  | ClassSel string
  | TypeAttrSel string string string

definition identChar :: "char \<Rightarrow> bool" where
  "identChar c =
     (c \<in> set ''abcdefghijklmnopqrstuvwxyzABCDEFGHIJKLMNOPQRSTUVWXYZ0123456789-_'')"

definition isIdent :: "string \<Rightarrow> bool" where
  "isIdent s = (s \<noteq> [] \<and> list_all identChar s \<and> hd s \<notin> set ''0123456789'')"

definition parseAttrTest :: "string \<Rightarrow> string \<Rightarrow> compound option" where
  "parseAttrTest t r =
     (let a = takeWhile identChar r; r2 = dropWhile identChar r in
      case r2 of
        e # q # r3 \<Rightarrow>
          (let v = takeWhile (\<lambda>c. c \<noteq> CHR 0x22) r3; r4 = dropWhile (\<lambda>c. c \<noteq> CHR 0x22) r3 in
           if e = CHR ''='' \<and> q = CHR 0x22 \<and> r4 = [CHR 0x22, CHR '']''] \<and> isIdent t \<and> isIdent a
           then Some (TypeAttrSel t a v) else None)
      | _ \<Rightarrow> None)"

definition parseCompound :: "string \<Rightarrow> compound option" where
  "parseCompound s =
     (if isIdent s then Some (TypeSel s)
      else case s of
        [] \<Rightarrow> None
      | c # r \<Rightarrow>
          if c = CHR ''.'' then (if isIdent r then Some (ClassSel r) else None)
          else (case dropWhile identChar s of
                  [] \<Rightarrow> None
                | b # r1 \<Rightarrow>
                    if b = CHR ''['' then parseAttrTest (takeWhile identChar s) r1 else None))"

fun splitComma :: "string \<Rightarrow> string list" where
  "splitComma [] = [[]]"
| "splitComma (c # cs) =
     (if c = CHR '','' then [] # splitComma cs
      else (case splitComma cs of p # ps \<Rightarrow> (c # p) # ps | [] \<Rightarrow> [[c]]))"

definition parseSelector :: "string \<Rightarrow> compound list option" where
  "parseSelector s =
     those (map (\<lambda>p. parseCompound (stripAsciiWhitespace p)) (splitComma s))"

text \<open>
  The class attribute is a set of tokens separated by ASCII white space. A class
  selector matches an element that has the class among its tokens; in a quirks-mode
  document the two are compared in ASCII lower case.
\<close>

fun tokens :: "string \<Rightarrow> string list" where
  "tokens [] = [[]]"
| "tokens (c # cs) =
     (if isAsciiWhitespace c then [] # tokens cs
      else (case tokens cs of p # ps \<Rightarrow> (c # p) # ps | [] \<Rightarrow> [[c]]))"

definition classList :: "node \<Rightarrow> string list" where
  "classList el = (case getAttribute el ''class'' of None \<Rightarrow> [] | Some v \<Rightarrow> filter (\<lambda>t. t \<noteq> []) (tokens v))"

definition hasClass :: "mode \<Rightarrow> string \<Rightarrow> node \<Rightarrow> bool" where
  "hasClass m c el =
     (case m of
        NoQuirks \<Rightarrow> c \<in> set (classList el)
      | Quirks \<Rightarrow> asciiLowerCase c \<in> set (map asciiLowerCase (classList el)))"

fun matchesCompound :: "mode \<Rightarrow> compound \<Rightarrow> node \<Rightarrow> bool" where
  "matchesCompound m (TypeSel t) (Element n as cs) = (n = t)"
| "matchesCompound m (ClassSel c) (Element n as cs) = hasClass m c (Element n as cs)"
| "matchesCompound m (TypeAttrSel t a v) (Element n as cs) = (n = t \<and> map_of as a = Some v)"
| "matchesCompound m _ _ = False"

definition matches :: "mode \<Rightarrow> compound list \<Rightarrow> node \<Rightarrow> bool" where
  "matches m sel el = list_ex (\<lambda>c. matchesCompound m c el) sel"

text \<open>
  \<^verbatim>\<open>querySelectorAll\<close> and \<^verbatim>\<open>querySelector\<close> over a list of root nodes: on a document
  its children (so the root element itself can match), on an element its child nodes
  (only descendants match).
\<close>

definition selectAll :: "mode \<Rightarrow> compound list \<Rightarrow> node list \<Rightarrow> node list" where
  "selectAll m sel roots = filter (matches m sel) (elements roots)"

definition querySelectorAll :: "mode \<Rightarrow> node list \<Rightarrow> string \<Rightarrow> error + node list" where
  "querySelectorAll m roots s =
     (case parseSelector s of
        None \<Rightarrow> Inl (SyntaxError s)
      | Some sel \<Rightarrow> Inr (selectAll m sel roots))"

definition querySelector :: "mode \<Rightarrow> node list \<Rightarrow> string \<Rightarrow> error + node option" where
  "querySelector m roots s =
     bindE (querySelectorAll m roots s)
       (\<lambda>ms. Inr (case ms of [] \<Rightarrow> None | x # _ \<Rightarrow> Some x))"

section \<open>Feed parser (services/rssParser.ts)\<close>

text \<open>
  The document comes from \<^verbatim>\<open>parseFromString(xmlText, 'text/xml')\<close>: an XML document, in
  no-quirks mode.
\<close>

record RSSItem =
  item_title :: string
  item_link :: string
  item_description :: string
  item_pubDate :: string
  item_author :: string
  item_guid :: string

record RSSFeed =
  feed_title :: string
  feed_description :: string
  feed_link :: string
  feed_items :: "RSSItem list"

definition getTextContent :: "node \<Rightarrow> string \<Rightarrow> error + string" where
  "getTextContent parent tagName =
     bindE (querySelector NoQuirks (childNodes parent) tagName)
       (\<lambda>element. Inr (case element of None \<Rightarrow> [] | Some el \<Rightarrow> trim (textContent el)))"

definition getAttributeContent :: "node \<Rightarrow> string \<Rightarrow> string \<Rightarrow> error + string" where
  "getAttributeContent parent tagName attributeName =
     bindE (querySelector NoQuirks (childNodes parent) tagName)
       (\<lambda>element. Inr (case element of
                         None \<Rightarrow> []
                       | Some el \<Rightarrow> (case getAttribute el attributeName of None \<Rightarrow> [] | Some v \<Rightarrow> v)))"

text \<open>The callback of \<^verbatim>\<open>.map(item => ({...}))\<close>: the six fields, evaluated in source order.\<close>

definition parseItem :: "node \<Rightarrow> error + RSSItem" where
  "parseItem item =
     bindE (orElse (getTextContent item ''title'') (Inr ''Untitled'')) (\<lambda>title.
     bindE (orElse (orElse (getTextContent item ''link'')
                           (getAttributeContent item ''link'' ''href'')) (Inr [])) (\<lambda>link.
     bindE (orElse (orElse (orElse (getTextContent item ''description'')
                                   (getTextContent item ''summary''))
                           (getTextContent item ''content'')) (Inr [])) (\<lambda>description.
     bindE (orElse (orElse (orElse (getTextContent item ''pubDate'')
                                   (getTextContent item ''published''))
                           (getTextContent item ''updated'')) (Inr [])) (\<lambda>pubDate.
     bindE (orElse (orElse (getTextContent item ''author'')
                           (getTextContent item ''dc:creator'')) (Inr [])) (\<lambda>author.
     bindE (orElse (orElse (getTextContent item ''guid'')
                           (getTextContent item ''id'')) (Inr [])) (\<lambda>guid.
     Inr \<lparr>item_title = title, item_link = link, item_description = description,
          item_pubDate = pubDate, item_author = author, item_guid = guid\<rparr>))))))"

text \<open>
  \<^verbatim>\<open>doc.querySelector('channel') || doc.querySelector('feed')\<close>: the second query runs
  only when the first finds nothing.
\<close>

definition findChannel :: "document \<Rightarrow> error + node option" where
  "findChannel doc =
     bindE (querySelector NoQuirks doc ''channel'')
       (\<lambda>c. case c of Some el \<Rightarrow> Inr (Some el) | None \<Rightarrow> querySelector NoQuirks doc ''feed'')"

definition parseRSS :: "document \<Rightarrow> error + RSSFeed" where
  "parseRSS doc =
     bindE (findChannel doc) (\<lambda>ch.
       case ch of
         None \<Rightarrow> Inl (Error ''Invalid RSS/Atom feed'')
       | Some channel \<Rightarrow>
           bindE (orElse (getTextContent channel ''title'') (Inr ''Unknown Feed'')) (\<lambda>title.
           bindE (orElse (orElse (getTextContent channel ''description'')
                                 (getTextContent channel ''subtitle'')) (Inr [])) (\<lambda>description.
           bindE (orElse (getTextContent channel ''link'') (Inr [])) (\<lambda>link.
           bindE (querySelectorAll NoQuirks doc ''item, entry'') (\<lambda>els.
           bindE (mapE parseItem els) (\<lambda>items.
           Inr \<lparr>feed_title = title, feed_description = description, feed_link = link,
                feed_items = items\<rparr>))))))"

section \<open>Markdown converter (services/urlToMarkdown.ts)\<close>

record Metadata =
  meta_title :: string
  meta_author :: string
  meta_description :: string
  meta_url :: string
  meta_extractedAt :: string

record Conversion =
  conv_markdown :: string
  conv_title :: string
  conv_metadata :: Metadata

text \<open>
  The document comes from \<^verbatim>\<open>parseFromString(html, 'text/html')\<close>, in the mode \<open>m\<close> the
  parser gave it; the elements it holds keep that mode, so the functions below take it
  as their first argument. In an HTML document \<^verbatim>\<open>el.tagName\<close> is the element's name in
  ASCII upper case.
\<close>

fun tagName :: "node \<Rightarrow> string" where
  "tagName (Element n as cs) = map toUpperChar n"
| "tagName _ = []"

text \<open>
  \<^verbatim>\<open>items.forEach((item, index) => ...)\<close> over the \<^verbatim>\<open>li\<close> descendants of the list. The
  selector \<^verbatim>\<open>li\<close> is a type selector, so the query cannot throw and is taken parsed.
\<close>

definition processListItems :: "mode \<Rightarrow> node \<Rightarrow> string \<Rightarrow> string" where
  "processListItems m listElement marker =
     (let items = selectAll m [TypeSel ''li''] (childNodes listElement) in
      concat (map (\<lambda>(index, item).
                 (let itemMarker = (if marker = ''1.'' then show_nat (index + 1) @ ''.'' else marker)
                  in itemMarker @ '' '' @ textContent item @ ''\<newline>''))
              (enumerate 0 items)))"

text \<open>
  \<open>htmlToMarkdown\<close> walks the child nodes of its argument; \<open>convertNodes\<close> is the body of
  its \<^verbatim>\<open>for\<close> loop over \<^verbatim>\<open>element.childNodes\<close>, with the \<^verbatim>\<open>switch\<close> on the lower-cased
  tag name. A node that is neither text nor element adds nothing.
\<close>

fun htmlToMarkdown :: "mode \<Rightarrow> node \<Rightarrow> string"
  and convertNodes :: "mode \<Rightarrow> node list \<Rightarrow> string" where
  "htmlToMarkdown m (Element n as cs) = convertNodes m cs"
| "htmlToMarkdown m (Text t) = []"
| "htmlToMarkdown m (Comment c) = []"
| "convertNodes m [] = []"
| "convertNodes m (Text t # rest) = t @ convertNodes m rest"
| "convertNodes m (Comment c # rest) = convertNodes m rest"
| "convertNodes m (Element n as cs # rest) =
     (let tag = toLowerCase (tagName (Element n as cs));
          text = textContent (Element n as cs) in
      if tag = ''h1'' then ''# '' @ text @ ''\<newline>\<newline>''
      else if tag = ''h2'' then ''## '' @ text @ ''\<newline>\<newline>''
      else if tag = ''h3'' then ''### '' @ text @ ''\<newline>\<newline>''
      else if tag = ''h4'' then ''#### '' @ text @ ''\<newline>\<newline>''
      else if tag = ''h5'' then ''##### '' @ text @ ''\<newline>\<newline>''
      else if tag = ''h6'' then ''###### '' @ text @ ''\<newline>\<newline>''
      else if tag = ''p'' then text @ ''\<newline>\<newline>''
      else if tag = ''strong'' \<or> tag = ''b'' then ''**'' @ text @ ''**''
      else if tag = ''em'' \<or> tag = ''i'' then ''*'' @ text @ ''*''
      else if tag = ''a'' then
        (let href = (case map_of as ''href'' of None \<Rightarrow> [] | Some v \<Rightarrow> v)
         in ''['' @ text @ ''](''  @ href @ '')'')
      else if tag = ''img'' then
        (let src = (case map_of as ''src'' of None \<Rightarrow> [] | Some v \<Rightarrow> v);
             alt = (case map_of as ''alt'' of None \<Rightarrow> [] | Some v \<Rightarrow> v)
         in ''!['' @ alt @ ''](''  @ src @ '')\<newline>\<newline>'')
      else if tag = ''ul'' then processListItems m (Element n as cs) ''-'' @ ''\<newline>''
      else if tag = ''ol'' then processListItems m (Element n as cs) ''1.'' @ ''\<newline>''
      else if tag = ''blockquote'' then ''> '' @ text @ ''\<newline>\<newline>''
      else if tag = ''code'' then ''`'' @ text @ ''`''
      else if tag = ''pre'' then ''```\<newline>'' @ text @ ''\<newline>```\<newline>\<newline>''
      else htmlToMarkdown m (Element n as cs))
     @ convertNodes m rest"

text \<open>
  \<^verbatim>\<open>el.remove()\<close> for every element of a static node list: a listed node goes with its
  subtree, the others keep their place.
\<close>

fun removeNodes :: "node list \<Rightarrow> node list \<Rightarrow> node list" where
  "removeNodes els [] = []"
| "removeNodes els (Element n as cs # rest) =
     (if Element n as cs \<in> set els then removeNodes els rest
      else Element n as (removeNodes els cs) # removeNodes els rest)"
| "removeNodes els (Text t # rest) = Text t # removeNodes els rest"
| "removeNodes els (Comment c # rest) = Comment c # removeNodes els rest"

definition elementsToRemove :: "string list" where
  "elementsToRemove =
     [''script'', ''style'', ''nav'', ''header'', ''footer'', ''.advertisement'', ''.sidebar'']"

text \<open>\<^verbatim>\<open>elementsToRemove.forEach(selector => doc.querySelectorAll(selector).forEach(el => el.remove()))\<close>\<close>

fun removeElements :: "mode \<Rightarrow> string list \<Rightarrow> document \<Rightarrow> error + document" where
  "removeElements m [] doc = Inr doc"
| "removeElements m (selector # selectors) doc =
     bindE (querySelectorAll m doc selector)
       (\<lambda>els. removeElements m selectors (removeNodes els doc))"

definition contentSelectors :: "string list" where
  "contentSelectors = [''article'', ''main'', ''.content'', ''.post'', ''.entry'']"

text \<open>The loop over \<^verbatim>\<open>contentSelectors\<close>, left at the first selector that finds an element.\<close>

fun findMainContent :: "mode \<Rightarrow> string list \<Rightarrow> document \<Rightarrow> error + node option" where
  "findMainContent m [] doc = Inr None"
| "findMainContent m (selector # selectors) doc =
     bindE (querySelector m doc selector)
       (\<lambda>mainContent. case mainContent of
                         Some el \<Rightarrow> Inr (Some el)
                       | None \<Rightarrow> findMainContent m selectors doc)"

text \<open>
  \<^verbatim>\<open>doc.body\<close>: the first \<^verbatim>\<open>body\<close> or \<^verbatim>\<open>frameset\<close> child of the document element when
  that is an \<^verbatim>\<open>html\<close> element, null otherwise.
\<close>

fun isElement :: "node \<Rightarrow> bool" where
  "isElement (Element n as cs) = True"
| "isElement _ = False"

fun isElementNamed :: "string \<Rightarrow> node \<Rightarrow> bool" where
  "isElementNamed t (Element n as cs) = (n = t)"
| "isElementNamed t _ = False"

definition body :: "document \<Rightarrow> node option" where
  "body doc =
     (case filter isElement doc of
        [] \<Rightarrow> None
      | root # _ \<Rightarrow>
          if isElementNamed ''html'' root
          then (case filter (\<lambda>c. isElementNamed ''body'' c \<or> isElementNamed ''frameset'' c)
                       (childNodes root) of
                  [] \<Rightarrow> None
                | b # _ \<Rightarrow> Some b)
          else None)"

text \<open>
  Lines 25 to 42 of \<^verbatim>\<open>convertHTMLToMarkdown\<close>: the removal pass, the selector loop and the
  fallback to \<^verbatim>\<open>doc.body\<close>, which is null when the removal pass took the body itself.
\<close>

definition contentRoot :: "mode \<Rightarrow> document \<Rightarrow> error + node option" where
  "contentRoot m doc =
     bindE (removeElements m elementsToRemove doc) (\<lambda>doc'.
     bindE (findMainContent m contentSelectors doc') (\<lambda>mainContent.
     Inr (case mainContent of Some el \<Rightarrow> Some el | None \<Rightarrow> body doc')))"

text \<open>
  The network, as the converter's module uses it: \<^verbatim>\<open>fetch(url)\<close> followed by
  \<^verbatim>\<open>response.text()\<close> gives the text of the page or fails. A function of this module
  is given the network and returns, with its result, the URLs it requested, in order:
  it touches the network exactly when this list is not empty.

  \<open>now\<close> is what \<^verbatim>\<open>new Date().toISOString()\<close> returns at the call: the clock is an
  input of the model. Reading \<^verbatim>\<open>childNodes\<close> of a null content root is a \<open>TypeError\<close>.
  \<open>convertHTMLToMarkdown\<close> has no call of \<^verbatim>\<open>fetch\<close>, and the document of a
  \<^verbatim>\<open>DOMParser\<close> loads nothing (it has no browsing context: no script runs and no image
  or style sheet is fetched), so the list of its requests is empty.
\<close>

type_synonym network = "string \<Rightarrow> error + string"

definition convertHTMLToMarkdown ::
  "network \<Rightarrow> mode \<Rightarrow> string \<Rightarrow> document \<Rightarrow> string \<Rightarrow> (error + Conversion) \<times> string list" where
  "convertHTMLToMarkdown fetch m now doc originalUrl =
     (bindE (querySelector m doc ''title'') (\<lambda>t.
      bindE (querySelector m doc ''meta[name=\"author\"]'') (\<lambda>a.
      bindE (querySelector m doc ''meta[name=\"description\"]'') (\<lambda>d.
      let title = (case t of
                     None \<Rightarrow> ''Untitled Article''
                   | Some el \<Rightarrow> if textContent el \<noteq> [] then textContent el else ''Untitled Article'');
          author = (case a of
                      None \<Rightarrow> []
                    | Some el \<Rightarrow> (case getAttribute el ''content'' of None \<Rightarrow> [] | Some v \<Rightarrow> v));
          description = (case d of
                           None \<Rightarrow> []
                         | Some el \<Rightarrow> (case getAttribute el ''content'' of None \<Rightarrow> [] | Some v \<Rightarrow> v))
      in
      bindE (contentRoot m doc) (\<lambda>mainContent.
        case mainContent of
          None \<Rightarrow> Inl (TypeError ''Cannot read properties of null (reading childNodes)'')
        | Some el \<Rightarrow>
            Inr \<lparr>conv_markdown = htmlToMarkdown m el,
                 conv_title = title,
                 conv_metadata = \<lparr>meta_title = title, meta_author = author,
                                   meta_description = description, meta_url = originalUrl,
                                   meta_extractedAt = now\<rparr>\<rparr>)))),
      [])"

text \<open>
  \<open>getDemoMarkdown\<close>, the placeholder of \<open>convertURL\<close>: \<open>today\<close> is what
  \<^verbatim>\<open>new Date().toLocaleDateString()\<close> returns.
\<close>

definition getDemoMarkdown :: "string \<Rightarrow> string \<Rightarrow> string \<Rightarrow> Conversion" where
  "getDemoMarkdown now today url =
     \<lparr>conv_markdown =
        ''# Sample Article from URL\<newline>\<newline>This is a demonstration of how URL-to-Markdown conversion works in the ReadLater application.\<newline>\<newline>## Key Features\<newline>\<newline>The conversion process includes:\<newline>\<newline>- **Automatic content extraction** from web pages\<newline>- **Metadata preservation** including title, author, and description\<newline>- **Clean markdown formatting** with proper heading structure\<newline>- **Image and link preservation** when possible\<newline>\<newline>## How It Works\<newline>\<newline>1. Fetch the webpage content\<newline>2. Parse and clean the HTML\<newline>3. Extract main content using heuristics\<newline>4. Convert to clean markdown format\<newline>5. Preserve important metadata\<newline>\<newline>> This is a blockquote example to show formatting preservation.\<newline>\<newline>### Code Example\<newline>\<newline>```javascript\<newline>const result = await URLToMarkdownConverter.convertURL(url);\<newline>console.log(result.markdown);\<newline>```\<newline>\<newline>For more information, visit the [original URL]('' @ url @ '').\<newline>\<newline>---\<newline>\<newline>*Article extracted on '' @ today @ ''*'',
      conv_title = ''Sample Converted Article'',
      conv_metadata = \<lparr>meta_title = ''Sample Converted Article'', meta_author = ''Demo Author'',
                        meta_description = ''A demonstration of URL-to-Markdown conversion'',
                        meta_url = url, meta_extractedAt = now\<rparr>\<rparr>"

text \<open>
  \<open>convertURL\<close> is the caller that does touch the network: one request for the page,
  then \<open>parseFromString\<close> (the \<^verbatim>\<open>DOMParser\<close> in \<^verbatim>\<open>text/html\<close>, which gives the document
  and its mode) and the conversion; any exception on the way is caught and answered by
  the placeholder.
\<close>

definition convertURL ::
  "network \<Rightarrow> (string \<Rightarrow> mode \<times> document) \<Rightarrow> string \<Rightarrow> string \<Rightarrow> string
     \<Rightarrow> Conversion \<times> string list" where
  "convertURL fetch parseFromString now today url =
     (case fetch url of
        Inl e \<Rightarrow> (getDemoMarkdown now today url, [url])
      | Inr html \<Rightarrow>
          (let (m, doc) = parseFromString html;
               (result, requests) = convertHTMLToMarkdown fetch m now doc url
           in (case result of
                 Inl e \<Rightarrow> (getDemoMarkdown now today url, url # requests)
               | Inr c \<Rightarrow> (c, url # requests))))"

section \<open>Summarizer (services/aiSummarizer.ts)\<close>

text \<open>
  The repository holds two versions of \<^verbatim>\<open>AISummarizer\<close>: the one of
  \<^verbatim>\<open>services/aiSummarizer.ts\<close>, and a later one whose request has an optional \<^verbatim>\<open>prompt\<close>.
\<close>

record SummarizeRequest =
  content :: string
  apiKey :: string
  model :: string

record SummarizeRequestPrompt = SummarizeRequest +
  prompt :: "string option"

text \<open>
  The request handed to \<^verbatim>\<open>fetch\<close>, its body as the object given to \<^verbatim>\<open>JSON.stringify\<close>
  (numbers as they are written in the source).
\<close>

record ChatBody =
  body_model :: string
  body_messages :: "(string \<times> string) list"
  body_temperature :: string
  body_max_tokens :: nat

record HttpRequest =
  req_url :: string
  req_method :: string
  req_headers :: "(string \<times> string) list"
  req_body :: ChatBody

text \<open>
  The response: \<^verbatim>\<open>ok\<close>, \<^verbatim>\<open>statusText\<close>, and what \<^verbatim>\<open>response.json()\<close> resolves to, an
  exception when the body is not JSON. Of the parsed data only \<^verbatim>\<open>choices\<close> is read:
  \<open>None\<close> when the property is missing, else for each choice its \<^verbatim>\<open>message.content\<close>
  (\<open>None\<close> when the choice has none).
\<close>

record Response =
  resp_ok :: bool
  resp_statusText :: string
  resp_json :: "error + string option list option"

definition DEFAULT_PROMPT :: string where
  "DEFAULT_PROMPT = ''Please provide a comprehensive summary of the following article. Focus on the main points, key insights, and important details. Make the summary clear and well-structured:\<newline>\<newline>''"

definition chatRequest :: "string \<Rightarrow> string \<Rightarrow> string \<Rightarrow> string \<Rightarrow> HttpRequest" where
  "chatRequest origin key mdl text =
     \<lparr>req_url = ''https://openrouter.ai/api/v1/chat/completions'',
      req_method = ''POST'',
      req_headers = [(''Authorization'', ''Bearer '' @ key),
                     (''Content-Type'', ''application/json''),
                     (''HTTP-Referer'', origin),
                     (''X-Title'', ''ReadLater App'')],
      req_body = \<lparr>body_model = mdl, body_messages = [(''user'', text)],
                   body_temperature = ''0.7'', body_max_tokens = 1000\<rparr>\<rparr>"

text \<open>Lines 43 to 48: what the function makes of the response.\<close>

definition readResponse :: "error + Response \<Rightarrow> error + string" where
  "readResponse r =
     (case r of
        Inl e \<Rightarrow> Inl e
      | Inr response \<Rightarrow>
          if \<not> resp_ok response
          then Inl (Error (''API request failed: '' @ resp_statusText response))
          else (case resp_json response of
                  Inl e \<Rightarrow> Inl e
                | Inr None \<Rightarrow> Inl (TypeError ''Cannot read properties of undefined (reading 0)'')
                | Inr (Some []) \<Rightarrow> Inr ''No summary generated''
                | Inr (Some (c # _)) \<Rightarrow>
                    (case c of
                       None \<Rightarrow> Inr ''No summary generated''
                     | Some text \<Rightarrow> Inr (if text \<noteq> [] then text else ''No summary generated''))))"

text \<open>
  \<open>fetch\<close> is the network, \<open>origin\<close> is \<^verbatim>\<open>window.location.origin\<close>. The result is paired
  with the requests the call issued, in order: the network is touched exactly when this
  list is not empty.
\<close>

definition summarizeText ::
  "(HttpRequest \<Rightarrow> error + Response) \<Rightarrow> string \<Rightarrow> 'a SummarizeRequest_scheme
     \<Rightarrow> (error + string) \<times> HttpRequest list" where
  "summarizeText fetch origin request =
     (if apiKey request = [] then (Inl (Error ''API key is required''), [])
      else (let rq = chatRequest origin (apiKey request) (model request)
                       (DEFAULT_PROMPT @ content request)
            in (readResponse (fetch rq), [rq])))"

definition summarizeTextPrompt ::
  "(HttpRequest \<Rightarrow> error + Response) \<Rightarrow> string \<Rightarrow> SummarizeRequestPrompt
     \<Rightarrow> (error + string) \<times> HttpRequest list" where
  "summarizeTextPrompt fetch origin request =
     (if apiKey request = [] then (Inl (Error ''API key is required''), [])
      else (let promptToUse = (case prompt request of
                                 None \<Rightarrow> DEFAULT_PROMPT
                               | Some p \<Rightarrow> if p \<noteq> [] then p else DEFAULT_PROMPT);
                rq = chatRequest origin (apiKey request) (model request)
                       (promptToUse @ content request)
            in (readResponse (fetch rq), [rq])))"

section \<open>Store (services/storageService.ts)\<close>

record Highlight =
  h_id :: string
  h_articleId :: string
  h_text :: string
  h_color :: string
  h_note :: "string option"
  h_position :: int

text \<open>\<^verbatim>\<open>Omit<Article, 'id'>\<close> is the record without its key; \<^verbatim>\<open>Article\<close> adds the key.\<close>

record ArticleData =
  a_feedId :: "string option"
  a_title :: string
  a_author :: "string option"
  a_publishDate :: int
  a_content :: string
  a_summary :: "string option"
  a_url :: string
  a_isRead :: bool
  a_tags :: "string list"
  a_notes :: "string option"
  a_highlights :: "Highlight list option"

record Article = ArticleData +
  a_id :: string

record FeedData =
  f_url :: string
  f_title :: string
  f_description :: string
  f_category :: string
  f_lastUpdated :: int
  f_updateInterval :: int
  f_favicon :: "string option"

record Feed = FeedData +
  f_id :: string

text \<open>\<^verbatim>\<open>{ ...article, id }\<close>\<close>

definition withId :: "ArticleData \<Rightarrow> string \<Rightarrow> Article" where
  "withId article i = ArticleData.extend article (Article.fields i)"

definition withFeedId :: "FeedData \<Rightarrow> string \<Rightarrow> Feed" where
  "withFeedId feed i = FeedData.extend feed (Feed.fields i)"

text \<open>
  An IndexedDB object store with key path \<^verbatim>\<open>id\<close>: its records in ascending key order, no
  two with the same key. \<^verbatim>\<open>add\<close> refuses a key that is stored, \<^verbatim>\<open>put\<close> overwrites it,
  \<^verbatim>\<open>delete\<close> of an absent key succeeds, \<^verbatim>\<open>getAll\<close> returns the records in key order.
\<close>

definition idb_add :: "('r \<Rightarrow> string) \<Rightarrow> 'r \<Rightarrow> 'r list \<Rightarrow> error + 'r list" where
  "idb_add key r store =
     (if key r \<in> set (map key store) then Inl (ConstraintError (key r))
      else Inr (insort_key key r store))"

definition idb_put :: "('r \<Rightarrow> string) \<Rightarrow> 'r \<Rightarrow> 'r list \<Rightarrow> 'r list" where
  "idb_put key r store = insort_key key r (filter (\<lambda>x. key x \<noteq> key r) store)"

definition idb_delete :: "('r \<Rightarrow> string) \<Rightarrow> string \<Rightarrow> 'r list \<Rightarrow> 'r list" where
  "idb_delete key k store = filter (\<lambda>x. key x \<noteq> k) store"

text \<open>
  The state: whether \<^verbatim>\<open>this.db\<close> holds the open database, and the object stores
  \<^verbatim>\<open>articles\<close> and \<^verbatim>\<open>feeds\<close> of the database \<^verbatim>\<open>ReadLaterApp\<close> (the stores
  \<^verbatim>\<open>highlights\<close> and \<^verbatim>\<open>settings\<close> are created and never accessed).
\<close>

record StorageService =
  db :: bool
  articles :: "Article list"
  feeds :: "Feed list"

text \<open>
  \<open>init\<close> with the outcome of \<^verbatim>\<open>indexedDB.open\<close>: an error, or success, which sets
  \<^verbatim>\<open>this.db\<close>. The upgrade handler creates only the stores that are missing.
\<close>

definition init :: "error option \<Rightarrow> StorageService \<Rightarrow> (error + unit) \<times> StorageService" where
  "init outcome s =
     (case outcome of Some e \<Rightarrow> (Inl e, s) | None \<Rightarrow> (Inr (), s\<lparr>db := True\<rparr>))"

text \<open>
  The identifier \<^verbatim>\<open>`article_${Date.now()}_${Math.random().toString(36).substr(2, 9)}`\<close>.
  The clock and the random source are inputs: \<open>now\<close> is \<^verbatim>\<open>Date.now()\<close> and \<open>random36\<close>
  is \<^verbatim>\<open>Math.random().toString(36)\<close>, the text \<^verbatim>\<open>0.\<close> followed by base-36 digits.
\<close>

definition substr :: "string \<Rightarrow> nat \<Rightarrow> nat \<Rightarrow> string" where
  "substr s start len = take len (drop start s)"

definition saveArticle ::
  "int \<Rightarrow> string \<Rightarrow> ArticleData \<Rightarrow> StorageService \<Rightarrow> (error + string) \<times> StorageService" where
  "saveArticle now random36 article s =
     (let i = ''article_'' @ show_int now @ ''_'' @ substr random36 2 9;
          fullArticle = withId article i
      in if \<not> db s then (Inl (Error ''Database not initialized''), s)
         else (case idb_add a_id fullArticle (articles s) of
                 Inl e \<Rightarrow> (Inl e, s)
               | Inr store \<Rightarrow> (Inr i, s\<lparr>articles := store\<rparr>)))"

definition getArticles :: "StorageService \<Rightarrow> error + Article list" where
  "getArticles s =
     (if \<not> db s then Inl (Error ''Database not initialized'') else Inr (articles s))"

definition updateArticle :: "Article \<Rightarrow> StorageService \<Rightarrow> (error + unit) \<times> StorageService" where
  "updateArticle article s =
     (if \<not> db s then (Inl (Error ''Database not initialized''), s)
      else (Inr (), s\<lparr>articles := idb_put a_id article (articles s)\<rparr>))"

definition deleteArticle :: "string \<Rightarrow> StorageService \<Rightarrow> (error + unit) \<times> StorageService" where
  "deleteArticle i s =
     (if \<not> db s then (Inl (Error ''Database not initialized''), s)
      else (Inr (), s\<lparr>articles := idb_delete a_id i (articles s)\<rparr>))"

definition saveFeed ::
  "int \<Rightarrow> string \<Rightarrow> FeedData \<Rightarrow> StorageService \<Rightarrow> (error + string) \<times> StorageService" where
  "saveFeed now random36 feed s =
     (let i = ''feed_'' @ show_int now @ ''_'' @ substr random36 2 9;
          fullFeed = withFeedId feed i
      in if \<not> db s then (Inl (Error ''Database not initialized''), s)
         else (case idb_add f_id fullFeed (feeds s) of
                 Inl e \<Rightarrow> (Inl e, s)
               | Inr store \<Rightarrow> (Inr i, s\<lparr>feeds := store\<rparr>)))"

definition getFeeds :: "StorageService \<Rightarrow> error + Feed list" where
  "getFeeds s =
     (if \<not> db s then Inl (Error ''Database not initialized'') else Inr (feeds s))"

text \<open>
  The filter of \<open>searchArticles\<close>: \<^verbatim>\<open>article.summary?.toLowerCase().includes(q)\<close> is
  undefined, hence falsy, for an article without summary.
\<close>

definition matchesQuery :: "string \<Rightarrow> Article \<Rightarrow> bool" where
  "matchesQuery lowercaseQuery article =
     (str_includes (toLowerCase (a_title article)) lowercaseQuery \<or>
      str_includes (toLowerCase (a_content article)) lowercaseQuery \<or>
      (case a_summary article of
         None \<Rightarrow> False
       | Some summary \<Rightarrow> str_includes (toLowerCase summary) lowercaseQuery) \<or>
      list_ex (\<lambda>tag. str_includes (toLowerCase tag) lowercaseQuery) (a_tags article))"

definition searchArticles :: "string \<Rightarrow> StorageService \<Rightarrow> error + Article list" where
  "searchArticles query s =
     bindE (getArticles s) (\<lambda>arts.
       let lowercaseQuery = toLowerCase query
       in Inr (filter (matchesQuery lowercaseQuery) arts))"

section \<open>Notions used in the statements\<close>

text \<open>An element of the given name occurs somewhere in the document.\<close>

definition hasElement :: "document \<Rightarrow> string \<Rightarrow> bool" where
  "hasElement doc t = list_ex (isElementNamed t) (elements doc)"

text \<open>The \<^verbatim>\<open>item\<close> and \<^verbatim>\<open>entry\<close> elements of the whole document, in document order.\<close>

definition entryLike :: "document \<Rightarrow> node list" where
  "entryLike doc =
     filter (\<lambda>el. isElementNamed ''item'' el \<or> isElementNamed ''entry'' el) (elements doc)"

text \<open>
  What a query with a parsed selector finds first, and the text or attribute that the
  feed parser reads from it (in its XML document, hence in no-quirks mode).
\<close>

definition firstMatch :: "mode \<Rightarrow> compound list \<Rightarrow> node list \<Rightarrow> node option" where
  "firstMatch m sel roots = (case selectAll m sel roots of [] \<Rightarrow> None | x # _ \<Rightarrow> Some x)"

definition textOf :: "compound list \<Rightarrow> node \<Rightarrow> string" where
  "textOf sel parent =
     (case firstMatch NoQuirks sel (childNodes parent) of
        None \<Rightarrow> []
      | Some el \<Rightarrow> trim (textContent el))"

definition attrOf :: "compound list \<Rightarrow> string \<Rightarrow> node \<Rightarrow> string" where
  "attrOf sel a parent =
     (case firstMatch NoQuirks sel (childNodes parent) of
        None \<Rightarrow> []
      | Some el \<Rightarrow> (case getAttribute el a of None \<Rightarrow> [] | Some v \<Rightarrow> v))"

fun firstNonEmpty :: "string list \<Rightarrow> string" where
  "firstNonEmpty [] = []"
| "firstNonEmpty (s # ss) = (if s \<noteq> [] then s else firstNonEmpty ss)"

text \<open>The item that \<open>parseItem\<close> returns when it returns one.\<close>

definition itemOf :: "node \<Rightarrow> RSSItem" where
  "itemOf item =
     \<lparr>item_title = firstNonEmpty [textOf [TypeSel ''title''] item, ''Untitled''],
      item_link = firstNonEmpty [textOf [TypeSel ''link''] item,
                                 attrOf [TypeSel ''link''] ''href'' item],
      item_description = firstNonEmpty [textOf [TypeSel ''description''] item,
                                        textOf [TypeSel ''summary''] item,
                                        textOf [TypeSel ''content''] item],
      item_pubDate = firstNonEmpty [textOf [TypeSel ''pubDate''] item,
                                    textOf [TypeSel ''published''] item,
                                    textOf [TypeSel ''updated''] item],
      item_author = textOf [TypeSel ''author''] item,
      item_guid = firstNonEmpty [textOf [TypeSel ''guid''] item, textOf [TypeSel ''id''] item]\<rparr>"

subsection \<open>Example documents\<close>

text \<open>
  An RSS 2.0 feed with one item that names its author in \<^verbatim>\<open>dc:creator\<close> (local name
  \<^verbatim>\<open>creator\<close>) and has no \<^verbatim>\<open>author\<close> element.
\<close>

definition creatorItem :: node where
  "creatorItem =
     Element ''item'' []
       [Element ''title'' [] [Text ''First post''],
        Element ''link'' [] [Text ''https://example.com/1''],
        Element ''description'' [] [Text ''Hello''],
        Element ''pubDate'' [] [Text ''Mon, 01 Jan 2024 00:00:00 GMT''],
        Element ''creator'' [] [Text ''Ann''],
        Element ''guid'' [] [Text ''1'']]"

definition creatorFeed :: document where
  "creatorFeed =
     [Element ''rss''
        [(''version'', ''2.0''), (''xmlns:dc'', ''http://purl.org/dc/elements/1.1/'')]
        [Element ''channel'' []
           [Element ''title'' [] [Text ''Blog''],
            Element ''link'' [] [Text ''https://example.com''],
            Element ''description'' [] [Text ''A blog''],
            creatorItem]]]"

text \<open>A document without \<^verbatim>\<open>channel\<close> and \<^verbatim>\<open>feed\<close>, and an Atom feed with one entry.\<close>

definition noContainer :: document where
  "noContainer = [Element ''html'' [] [Element ''body'' [] [Text ''Not found'']]]"

definition atomFeed :: document where
  "atomFeed =
     [Element ''feed'' []
        [Element ''title'' [] [Text ''Atom blog''],
         Element ''entry'' []
           [Element ''title'' [] [Text '' Entry ''],
            Element ''link'' [(''href'', ''https://example.com/e'')] [],
            Element ''summary'' [] [Text ''S''],
            Element ''updated'' [] [Text ''2024-01-01T00:00:00Z''],
            Element ''author'' [] [Element ''name'' [] [Text ''Bob'']],
            Element ''id'' [] [Text ''urn:1'']]]]"

text \<open>An item that is a sibling of the channel, not inside it.\<close>

definition strayItem :: node where
  "strayItem =
     Element ''item'' []
       [Element ''title'' [] [Text ''Stray''], Element ''author'' [] [Text ''Cy'']]"

definition insideItem :: node where
  "insideItem =
     Element ''item'' []
       [Element ''title'' [] [Text ''Inside''], Element ''author'' [] [Text ''Di'']]"

definition strayFeed :: document where
  "strayFeed =
     [Element ''rss'' []
        [strayItem,
         Element ''channel'' [] [Element ''title'' [] [Text ''Blog''], insideItem]]]"

subsection \<open>Example requests and stores\<close>

definition sampleArticle :: ArticleData where
  "sampleArticle =
     \<lparr>a_feedId = None, a_title = ''Hello World'', a_author = Some ''Ann'', a_publishDate = 1700000000000,
      a_content = ''Some body text'', a_summary = None, a_url = ''https://example.com/1'',
      a_isRead = False, a_tags = [''news''], a_notes = None, a_highlights = None\<rparr>"

definition otherArticle :: ArticleData where
  "otherArticle =
     \<lparr>a_feedId = Some ''feed_1_a'', a_title = ''Second'', a_author = None, a_publishDate = 5,
      a_content = ''Other'', a_summary = Some ''Short'', a_url = ''https://example.com/2'',
      a_isRead = True, a_tags = [], a_notes = None, a_highlights = None\<rparr>"

definition sampleFeed :: FeedData where
  "sampleFeed =
     \<lparr>f_url = ''https://example.com/rss'', f_title = ''Blog'', f_description = ''A blog'',
      f_category = ''tech'', f_lastUpdated = 0, f_updateInterval = 60, f_favicon = None\<rparr>"

text \<open>A database that holds one article, before and after \<open>init\<close>.\<close>

definition closedStore :: StorageService where
  "closedStore = \<lparr>db = False, articles = [withId otherArticle ''article_5_abc''], feeds = []\<rparr>"

definition readyStore :: StorageService where
  "readyStore = snd (init None closedStore)"

definition okResponse :: Response where
  "okResponse = \<lparr>resp_ok = True, resp_statusText = ''OK'', resp_json = Inr (Some [Some ''A summary''])\<rparr>"

definition emptyKeyRequest :: SummarizeRequestPrompt where
  "emptyKeyRequest = \<lparr>content = ''Some body text'', apiKey = [], model = ''openai/gpt-4'', prompt = None\<rparr>"

definition keyedRequest :: SummarizeRequestPrompt where
  "keyedRequest = \<lparr>content = ''Some body text'', apiKey = ''sk-1'', model = ''openai/gpt-4'', prompt = None\<rparr>"

subsection \<open>Notions for the markdown converter\<close>

text \<open>
  One pass that deletes every element satisfying \<open>P\<close>, with its subtree. \<open>removable\<close>
  is the removal list of the converter as one test, in a document of the given mode;
  \<open>stripped\<close> is the document the removal pass leaves (lemma \<open>removeElements_eq\<close>).
\<close>

fun prune :: "(node \<Rightarrow> bool) \<Rightarrow> node list \<Rightarrow> node list" where
  "prune P [] = []"
| "prune P (Element n as cs # rest) =
     (if P (Element n as cs) then prune P rest
      else Element n as (prune P cs) # prune P rest)"
| "prune P (Text t # rest) = Text t # prune P rest"
| "prune P (Comment c # rest) = Comment c # prune P rest"

definition removable :: "mode \<Rightarrow> node \<Rightarrow> bool" where
  "removable m el =
     matches m [TypeSel ''script'', TypeSel ''style'', TypeSel ''nav'', TypeSel ''header'',
              TypeSel ''footer'', ClassSel ''advertisement'', ClassSel ''sidebar''] el"

definition stripped :: "mode \<Rightarrow> document \<Rightarrow> document" where
  "stripped m doc = prune (removable m) doc"

text \<open>The title and the \<^verbatim>\<open>meta\<close> contents that the converter reads from the document.\<close>

definition docTitle :: "mode \<Rightarrow> document \<Rightarrow> string" where
  "docTitle m doc =
     (case firstMatch m [TypeSel ''title''] doc of
        None \<Rightarrow> ''Untitled Article''
      | Some el \<Rightarrow> if textContent el \<noteq> [] then textContent el else ''Untitled Article'')"

definition metaContent :: "mode \<Rightarrow> string \<Rightarrow> document \<Rightarrow> string" where
  "metaContent m n doc =
     (case firstMatch m [TypeAttrSel ''meta'' ''name'' n] doc of
        None \<Rightarrow> []
      | Some el \<Rightarrow> (case getAttribute el ''content'' of None \<Rightarrow> [] | Some v \<Rightarrow> v))"

subsection \<open>Example pages\<close>

text \<open>
  The document the HTML parser builds for a body that is one list of two items: \<open>t\<close>
  is \<^verbatim>\<open>ol\<close> or \<^verbatim>\<open>ul\<close>, \<open>a\<close> and \<open>b\<close> are the item texts.
\<close>

definition listDoc :: "string \<Rightarrow> string \<Rightarrow> string \<Rightarrow> document" where
  "listDoc t a b =
     [Element ''html'' []
        [Element ''head'' [] [],
         Element ''body'' []
           [Element t [] [Element ''li'' [] [Text a], Element ''li'' [] [Text b]]]]]"

text \<open>A page whose only \<^verbatim>\<open>article\<close> element stands inside the navigation.\<close>

definition navDoc :: document where
  "navDoc =
     [Element ''html'' []
        [Element ''head'' [] [Element ''title'' [] [Text ''Page'']],
         Element ''body'' []
           [Element ''nav'' [] [Element ''article'' [] [Text ''Menu'']],
            Element ''main'' [] [Element ''p'' [] [Text ''Body'']]]]]"

text \<open>
  A page whose class names are written in upper or mixed case: a \<^verbatim>\<open>SIDEBAR\<close> block, a
  paragraph, and a \<^verbatim>\<open>Content\<close> block.
\<close>

definition mixedCaseDoc :: document where
  "mixedCaseDoc =
     [Element ''html'' []
        [Element ''head'' [] [],
         Element ''body'' []
           [Element ''div'' [(''class'', ''SIDEBAR'')] [Text ''ad''],
            Element ''p'' [] [Text ''Out''],
            Element ''div'' [(''class'', ''Content'')] [Element ''p'' [] [Text ''In'']]]]]"

text \<open>A page where \<^verbatim>\<open>main\<close> and a \<^verbatim>\<open>.content\<close> block come before the \<^verbatim>\<open>article\<close>.\<close>

definition articleDoc :: document where
  "articleDoc =
     [Element ''html'' []
        [Element ''head'' [] [Element ''title'' [] [Text ''Page'']],
         Element ''body'' []
           [Element ''main'' [] [Element ''p'' [] [Text ''Main'']],
            Element ''div'' [(''class'', ''content wide'')] [Text ''Content''],
            Element ''article'' [] [Element ''h1'' [] [Text ''Story'']]]]]"

declare show_nat.simps [simp del]

section \<open>Properties of the feed parser\<close>

lemma sel_channel: "parseSelector ''channel'' = Some [TypeSel ''channel'']"
  by code_simp

lemma sel_feed: "parseSelector ''feed'' = Some [TypeSel ''feed'']"
  by code_simp

lemma sel_title: "parseSelector ''title'' = Some [TypeSel ''title'']"
  by code_simp

lemma sel_link: "parseSelector ''link'' = Some [TypeSel ''link'']"
  by code_simp

lemma sel_description: "parseSelector ''description'' = Some [TypeSel ''description'']"
  by code_simp

lemma sel_subtitle: "parseSelector ''subtitle'' = Some [TypeSel ''subtitle'']"
  by code_simp

lemma sel_summary: "parseSelector ''summary'' = Some [TypeSel ''summary'']"
  by code_simp

lemma sel_content: "parseSelector ''content'' = Some [TypeSel ''content'']"
  by code_simp

lemma sel_pubDate: "parseSelector ''pubDate'' = Some [TypeSel ''pubDate'']"
  by code_simp

lemma sel_published: "parseSelector ''published'' = Some [TypeSel ''published'']"
  by code_simp

lemma sel_updated: "parseSelector ''updated'' = Some [TypeSel ''updated'']"
  by code_simp

lemma sel_author: "parseSelector ''author'' = Some [TypeSel ''author'']"
  by code_simp

lemma sel_guid: "parseSelector ''guid'' = Some [TypeSel ''guid'']"
  by code_simp

lemma sel_id: "parseSelector ''id'' = Some [TypeSel ''id'']"
  by code_simp

lemma sel_item_entry:
  "parseSelector ''item, entry'' = Some [TypeSel ''item'', TypeSel ''entry'']"
  by code_simp

lemma sel_dc_creator: "parseSelector ''dc:creator'' = None"
  by code_simp

lemma bindE_Inr: "bindE (Inr a) f = f a"
  by (simp add: bindE_def)

lemma bindE_Inl: "bindE (Inl e) f = Inl e"
  by (simp add: bindE_def)

lemma querySelector_valid:
  "parseSelector s = Some sel \<Longrightarrow> querySelector m roots s = Inr (firstMatch m sel roots)"
  by (simp add: querySelector_def querySelectorAll_def bindE_def firstMatch_def)

lemma querySelector_invalid:
  "parseSelector s = None \<Longrightarrow> querySelector m roots s = Inl (SyntaxError s)"
  by (simp add: querySelector_def querySelectorAll_def bindE_def)

lemma getTextContent_valid:
  "parseSelector s = Some sel \<Longrightarrow> getTextContent p s = Inr (textOf sel p)"
  by (simp add: getTextContent_def querySelector_valid bindE_def textOf_def)

lemma getTextContent_invalid:
  "parseSelector s = None \<Longrightarrow> getTextContent p s = Inl (SyntaxError s)"
  by (simp add: getTextContent_def querySelector_invalid bindE_def)

lemma getAttributeContent_valid:
  "parseSelector s = Some sel \<Longrightarrow> getAttributeContent p s a = Inr (attrOf sel a p)"
  by (simp add: getAttributeContent_def querySelector_valid bindE_def attrOf_def)

lemma orElse2: "orElse (Inr a) (Inr b) = Inr (firstNonEmpty [a, b])"
  by (simp add: orElse_def)

lemma orElse_throw:
  "orElse (orElse (Inr a) (Inl e)) (Inr b) = (if a = [] then Inl e else Inr a)"
  by (simp add: orElse_def)

lemma fne_flat: "firstNonEmpty (firstNonEmpty xs # ys) = firstNonEmpty (xs @ ys)"
  by (induction xs) auto

lemma fne_nil2: "firstNonEmpty [a, b, []] = firstNonEmpty [a, b]"
  by simp

lemma fne_nil3: "firstNonEmpty [a, b, c, []] = firstNonEmpty [a, b, c]"
  by simp

text \<open>
  \<open>parseItem\<close> in closed form: the query for \<^verbatim>\<open>dc:creator\<close> runs exactly when the item has
  no \<^verbatim>\<open>author\<close> text, and throws.
\<close>

lemma parseItem_eq:
  "parseItem item =
     (if textOf [TypeSel ''author''] item = [] then Inl (SyntaxError ''dc:creator'')
      else Inr (itemOf item))"
proof -
  have fields: "parseItem item =
     bindE (if textOf [TypeSel ''author''] item = [] then Inl (SyntaxError ''dc:creator'')
            else Inr (textOf [TypeSel ''author''] item))
       (\<lambda>author. Inr ((itemOf item)\<lparr>item_author := author\<rparr>))"
    unfolding parseItem_def itemOf_def
      getTextContent_valid [OF sel_title] getTextContent_valid [OF sel_link]
      getTextContent_valid [OF sel_description] getTextContent_valid [OF sel_summary]
      getTextContent_valid [OF sel_content] getTextContent_valid [OF sel_pubDate]
      getTextContent_valid [OF sel_published] getTextContent_valid [OF sel_updated]
      getTextContent_valid [OF sel_author] getTextContent_valid [OF sel_guid]
      getTextContent_valid [OF sel_id] getAttributeContent_valid [OF sel_link]
      getTextContent_invalid [OF sel_dc_creator]
    by (simp only: orElse2 orElse_throw bindE_Inr fne_flat append.simps fne_nil2 fne_nil3
        RSSItem.simps)
  show ?thesis
  proof (cases "textOf [TypeSel ''author''] item = []")
    case True
    then show ?thesis by (simp add: fields bindE_Inl)
  next
    case False
    then show ?thesis by (simp add: fields bindE_Inr itemOf_def)
  qed
qed

lemma mapE_Inr_iff: "mapE f xs = Inr ys \<longleftrightarrow> list_all2 (\<lambda>x y. f x = Inr y) xs ys"
proof (induction xs arbitrary: ys)
  case Nil
  show ?case by auto
next
  case (Cons x xs)
  show ?case
    by (cases ys) (auto simp: Cons.IH [symmetric] split: sum.splits)
qed

lemma mapE_Inl: "mapE f xs = Inl e \<Longrightarrow> \<exists>x \<in> set xs. f x = Inl e"
  by (induction xs) (auto split: sum.splits)

lemma mapE_fails: "x \<in> set xs \<Longrightarrow> f x = Inl e \<Longrightarrow> \<exists>e'. mapE f xs = Inl e'"
  by (induction xs) (auto split: sum.splits)

lemma matches_TypeSel: "matches m [TypeSel t] = isElementNamed t"
proof (rule ext)
  fix el show "matches m [TypeSel t] el = isElementNamed t el"
    by (cases el) (simp_all add: matches_def)
qed

lemma firstMatch_None_iff: "firstMatch m [TypeSel t] doc = None \<longleftrightarrow> \<not> hasElement doc t"
proof -
  have "firstMatch m [TypeSel t] doc = None \<longleftrightarrow> filter (isElementNamed t) (elements doc) = []"
    by (simp add: firstMatch_def selectAll_def matches_TypeSel split: list.splits)
  then show ?thesis
    by (simp add: hasElement_def list_ex_iff filter_empty_conv)
qed

lemma findChannel_eq:
  "findChannel doc =
     Inr (case firstMatch NoQuirks [TypeSel ''channel''] doc of
            Some el \<Rightarrow> Some el
          | None \<Rightarrow> firstMatch NoQuirks [TypeSel ''feed''] doc)"
  by (simp add: findChannel_def querySelector_valid [OF sel_channel]
      querySelector_valid [OF sel_feed] bindE_Inr split: option.splits)

lemma findChannel_None_iff:
  "findChannel doc = Inr None \<longleftrightarrow> \<not> hasElement doc ''channel'' \<and> \<not> hasElement doc ''feed''"
  by (simp add: findChannel_eq firstMatch_None_iff [of NoQuirks, symmetric] split: option.splits)

lemma querySelectorAll_item_entry: "querySelectorAll NoQuirks doc ''item, entry'' = Inr (entryLike doc)"
proof -
  have "matches NoQuirks [TypeSel ''item'', TypeSel ''entry''] el
          = (isElementNamed ''item'' el \<or> isElementNamed ''entry'' el)" for el
    by (cases el) (simp_all add: matches_def)
  then have "matches NoQuirks [TypeSel ''item'', TypeSel ''entry'']
          = (\<lambda>el. isElementNamed ''item'' el \<or> isElementNamed ''entry'' el)"
    by (simp add: fun_eq_iff)
  then show ?thesis
    by (simp add: querySelectorAll_def selectAll_def sel_item_entry entryLike_def)
qed

text \<open>\<open>parseRSS\<close> in closed form.\<close>

lemma parseRSS_eq:
  "parseRSS doc =
     (case findChannel doc of
        Inl e \<Rightarrow> Inl e
      | Inr None \<Rightarrow> Inl MalformedFeed
      | Inr (Some channel) \<Rightarrow>
          (case mapE parseItem (entryLike doc) of
             Inl e \<Rightarrow> Inl e
           | Inr items \<Rightarrow>
               Inr \<lparr>feed_title = firstNonEmpty [textOf [TypeSel ''title''] channel, ''Unknown Feed''],
                    feed_description = firstNonEmpty [textOf [TypeSel ''description''] channel,
                                                      textOf [TypeSel ''subtitle''] channel],
                    feed_link = textOf [TypeSel ''link''] channel,
                    feed_items = items\<rparr>))"
  unfolding parseRSS_def MalformedFeed_def
    getTextContent_valid [OF sel_title] getTextContent_valid [OF sel_link]
    getTextContent_valid [OF sel_description] getTextContent_valid [OF sel_subtitle]
    querySelectorAll_item_entry
  by (simp add: orElse2 fne_flat bindE_Inr findChannel_eq split: option.splits sum.splits)
     (simp add: bindE_def)

lemma parseRSS_error_cases:
  assumes "parseRSS doc = Inl e"
  shows "e = MalformedFeed \<and> findChannel doc = Inr None
         \<or> e = SyntaxError ''dc:creator'' \<and> (\<exists>ch. findChannel doc = Inr (Some ch))"
proof (cases "firstMatch NoQuirks [TypeSel ''channel''] doc = None \<and> firstMatch NoQuirks [TypeSel ''feed''] doc = None")
  case True
  then have "findChannel doc = Inr None" by (simp add: findChannel_eq)
  with assms show ?thesis by (simp add: parseRSS_eq)
next
  case False
  then have "\<exists>ch. findChannel doc = Inr (Some ch)"
    by (cases "firstMatch NoQuirks [TypeSel ''channel''] doc") (auto simp: findChannel_eq)
  then obtain ch where ch: "findChannel doc = Inr (Some ch)" ..
  show ?thesis
  proof (cases "mapE parseItem (entryLike doc)")
    case (Inl e')
    then obtain x where "parseItem x = Inl e'" using mapE_Inl by blast
    then have "e' = SyntaxError ''dc:creator''"
      by (simp add: parseItem_eq split: if_splits)
    with Inl ch assms show ?thesis by (simp add: parseRSS_eq)
  next
    case (Inr items)
    with ch assms show ?thesis by (simp add: parseRSS_eq)
  qed
qed

text \<open>
  C1. For a well-formed feed with N entry-like elements the parser is to return N
  items, the author taken from \<^verbatim>\<open>author\<close> or from the creator field. The code does not:
  whenever the document has its container and some \<^verbatim>\<open>item\<close> or \<^verbatim>\<open>entry\<close> has no
  \<^verbatim>\<open>author\<close> text, the fallback query \<^verbatim>\<open>dc:creator\<close> throws and \<open>parseRSS\<close> returns no
  feed at all.
\<close>

theorem parseRSS_throws_without_author:
  assumes "hasElement doc ''channel'' \<or> hasElement doc ''feed''"
    and "item \<in> set (entryLike doc)"
    and "getTextContent item ''author'' = Inr []"
  shows "parseRSS doc = Inl (SyntaxError ''dc:creator'')"
proof -
  from assms(3) have "textOf [TypeSel ''author''] item = []"
    by (simp add: getTextContent_valid [OF sel_author])
  then have thrown: "parseItem item = Inl (SyntaxError ''dc:creator'')"
    by (simp add: parseItem_eq)
  have "\<exists>e. mapE parseItem (entryLike doc) = Inl e"
    by (rule mapE_fails [where f = parseItem and x = item, OF assms(2) thrown])
  then obtain e where e: "mapE parseItem (entryLike doc) = Inl e" ..
  from mapE_Inl [where f = parseItem, OF e] obtain x where "parseItem x = Inl e"
    by blast
  then have e_eq: "e = SyntaxError ''dc:creator''"
    by (simp add: parseItem_eq split: if_splits)
  from assms(1) have "findChannel doc \<noteq> Inr None"
    by (simp add: findChannel_None_iff)
  then have "\<exists>ch. findChannel doc = Inr (Some ch)"
    by (cases "firstMatch NoQuirks [TypeSel ''channel''] doc") (simp_all add: findChannel_eq)
  then obtain ch where ch: "findChannel doc = Inr (Some ch)" ..
  from e e_eq ch show ?thesis
    by (simp add: parseRSS_eq)
qed

theorem parseRSS_throws_without_author_witness:
  "parseRSS creatorFeed = Inl (SyntaxError ''dc:creator'')"
proof -
  have c: "hasElement creatorFeed ''channel'' \<or> hasElement creatorFeed ''feed''"
    by code_simp
  have i: "creatorItem \<in> set (entryLike creatorFeed)"
    by code_simp
  have a: "getTextContent creatorItem ''author'' = Inr []"
    by code_simp
  show ?thesis
    by (rule parseRSS_throws_without_author [OF c i a])
qed

text \<open>
  C2. \<open>parseRSS\<close> fails with \<open>MalformedFeed\<close> exactly on the documents that have neither a
  \<^verbatim>\<open>channel\<close> nor a \<^verbatim>\<open>feed\<close> element; the error is the \<^verbatim>\<open>Error\<close> with the message of
  line 39, which no transport failure carries.
\<close>

theorem parseRSS_MalformedFeed_iff:
  "parseRSS doc = Inl MalformedFeed
     \<longleftrightarrow> \<not> hasElement doc ''channel'' \<and> \<not> hasElement doc ''feed''"
proof
  assume "parseRSS doc = Inl MalformedFeed"
  from parseRSS_error_cases [OF this] have "findChannel doc = Inr None"
    by (auto simp: MalformedFeed_def)
  then show "\<not> hasElement doc ''channel'' \<and> \<not> hasElement doc ''feed''"
    by (simp add: findChannel_None_iff)
next
  assume "\<not> hasElement doc ''channel'' \<and> \<not> hasElement doc ''feed''"
  then have "findChannel doc = Inr None" by (simp add: findChannel_None_iff)
  then show "parseRSS doc = Inl MalformedFeed" by (simp add: parseRSS_eq)
qed

theorem parseRSS_MalformedFeed_iff_witness:
  "parseRSS noContainer = Inl MalformedFeed
   \<and> parseRSS atomFeed \<noteq> Inl MalformedFeed
   \<and> parseRSS creatorFeed \<noteq> Inl MalformedFeed
   \<and> MalformedFeed \<noteq> FetchFailed ''Failed to fetch''"
proof -
  have n: "\<not> hasElement noContainer ''channel'' \<and> \<not> hasElement noContainer ''feed''"
    by code_simp
  have a: "hasElement atomFeed ''feed''"
    by code_simp
  have c: "hasElement creatorFeed ''channel''"
    by code_simp
  show ?thesis
    using parseRSS_MalformedFeed_iff [of noContainer] parseRSS_MalformedFeed_iff [of atomFeed]
      parseRSS_MalformedFeed_iff [of creatorFeed] n a c
    by (simp add: MalformedFeed_def)
qed

text \<open>
  C10. When \<open>parseRSS\<close> returns a feed, its items correspond one to one, in document
  order, to the \<^verbatim>\<open>item\<close> and \<^verbatim>\<open>entry\<close> elements of the whole document: each item is what
  the item callback makes of its element. The container plays no part in the
  selection, so an entry-like element outside it is included.
\<close>

theorem parseRSS_items_whole_document:
  assumes "parseRSS doc = Inr feed"
  shows "list_all2 (\<lambda>el it. parseItem el = Inr it) (entryLike doc) (feed_items feed)
         \<and> length (feed_items feed) = length (entryLike doc)"
proof -
  from assms obtain ch where ch: "findChannel doc = Inr (Some ch)"
    by (auto simp: parseRSS_eq split: sum.splits option.splits)
  with assms have "mapE parseItem (entryLike doc) = Inr (feed_items feed)"
    by (auto simp: parseRSS_eq split: sum.splits)
  then have "list_all2 (\<lambda>el it. parseItem el = Inr it) (entryLike doc) (feed_items feed)"
    by (simp add: mapE_Inr_iff)
  then show ?thesis
    by (simp add: list_all2_lengthD)
qed

theorem parseRSS_items_whole_document_witness:
  "entryLike strayFeed = [strayItem, insideItem]
   \<and> map item_title (feed_items (projr (parseRSS strayFeed))) = [''Stray'', ''Inside'']
   \<and> list_all2 (\<lambda>el it. parseItem el = Inr it) (entryLike strayFeed)
        (feed_items (projr (parseRSS strayFeed)))
   \<and> length (feed_items (projr (parseRSS strayFeed))) = length (entryLike strayFeed)"
proof -
  have r: "parseRSS strayFeed =
     Inr \<lparr>feed_title = ''Blog'', feed_description = [], feed_link = [],
          feed_items =
            [\<lparr>item_title = ''Stray'', item_link = [], item_description = [],
               item_pubDate = [], item_author = ''Cy'', item_guid = []\<rparr>,
             \<lparr>item_title = ''Inside'', item_link = [], item_description = [],
               item_pubDate = [], item_author = ''Di'', item_guid = []\<rparr>]\<rparr>"
    by code_simp
  have e: "entryLike strayFeed = [strayItem, insideItem]"
    by code_simp
  from parseRSS_items_whole_document [OF r] e r show ?thesis
    by simp
qed

section \<open>Properties of the summarizer\<close>

text \<open>
  C6. With an empty \<^verbatim>\<open>apiKey\<close> both versions of \<open>summarizeText\<close> fail with
  \<open>MissingCredential\<close> and issue no request; a request is issued exactly when the key is
  not empty.
\<close>

theorem summarizeText_missing_credential:
  "(apiKey request = [] \<longrightarrow> summarizeText fetch origin request = (Inl MissingCredential, []))
   \<and> (apiKey requestP = [] \<longrightarrow>
        summarizeTextPrompt fetch origin requestP = (Inl MissingCredential, []))
   \<and> (snd (summarizeText fetch origin request) = [] \<longleftrightarrow> apiKey request = [])
   \<and> (snd (summarizeTextPrompt fetch origin requestP) = [] \<longleftrightarrow> apiKey requestP = [])"
  by (simp add: summarizeText_def summarizeTextPrompt_def MissingCredential_def Let_def)

theorem summarizeText_missing_credential_witness:
  "summarizeText (\<lambda>rq. Inr okResponse) ''https://app.example'' emptyKeyRequest
     = (Inl MissingCredential, [])
   \<and> summarizeTextPrompt (\<lambda>rq. Inr okResponse) ''https://app.example'' emptyKeyRequest
     = (Inl MissingCredential, [])
   \<and> snd (summarizeText (\<lambda>rq. Inr okResponse) ''https://app.example'' keyedRequest) \<noteq> []
   \<and> snd (summarizeTextPrompt (\<lambda>rq. Inr okResponse) ''https://app.example'' keyedRequest) \<noteq> []
   \<and> fst (summarizeTextPrompt (\<lambda>rq. Inr okResponse) ''https://app.example'' keyedRequest)
     = Inr ''A summary''"
proof -
  have e: "apiKey emptyKeyRequest = []"
    by (simp add: emptyKeyRequest_def)
  have k: "apiKey keyedRequest \<noteq> []"
    by (simp add: keyedRequest_def)
  have r: "fst (summarizeTextPrompt (\<lambda>rq. Inr okResponse) ''https://app.example'' keyedRequest)
     = Inr ''A summary''"
    by (simp add: summarizeTextPrompt_def keyedRequest_def readResponse_def okResponse_def)
  from summarizeText_missing_credential
    [of emptyKeyRequest "\<lambda>rq. Inr okResponse" "''https://app.example''" emptyKeyRequest]
    summarizeText_missing_credential
    [of keyedRequest "\<lambda>rq. Inr okResponse" "''https://app.example''" keyedRequest]
    e k r show ?thesis
    by simp
qed

section \<open>Properties of the store\<close>

lemma str_includes_empty: "str_includes s []"
  by (cases s) simp_all

lemma matchesQuery_empty: "matchesQuery [] article"
  by (simp add: matchesQuery_def str_includes_empty)

text \<open>
  C9. On an initialized store, \<open>searchArticles\<close> with the empty query returns every
  stored article, the list that \<open>getArticles\<close> returns: the empty string is included in
  every title.
\<close>

theorem searchArticles_empty_query:
  assumes "db s"
  shows "searchArticles [] s = Inr (articles s) \<and> getArticles s = Inr (articles s)"
  using assms
  by (simp add: searchArticles_def getArticles_def bindE_def toLowerCase_def matchesQuery_empty)

theorem searchArticles_empty_query_witness:
  "db readyStore
   \<and> searchArticles [] readyStore = Inr [withId otherArticle ''article_5_abc'']
   \<and> getArticles readyStore = Inr [withId otherArticle ''article_5_abc'']"
proof -
  have d: "db readyStore"
    by (simp add: readyStore_def init_def)
  have a: "articles readyStore = [withId otherArticle ''article_5_abc'']"
    by (simp add: readyStore_def init_def closedStore_def)
  from searchArticles_empty_query [OF d] d a show ?thesis
    by simp
qed

text \<open>
  C8. While \<^verbatim>\<open>this.db\<close> is null, each of the seven operations fails with
  \<open>NotInitialized\<close>, and the writing ones leave the state as it was (the reading ones
  return no state: they cannot change it).
\<close>

theorem uninitialized_operations_fail:
  assumes "\<not> db s"
  shows "saveArticle now random36 article s = (Inl NotInitialized, s)
       \<and> getArticles s = Inl NotInitialized
       \<and> updateArticle full s = (Inl NotInitialized, s)
       \<and> deleteArticle i s = (Inl NotInitialized, s)
       \<and> saveFeed now random36 feed s = (Inl NotInitialized, s)
       \<and> getFeeds s = Inl NotInitialized
       \<and> searchArticles query s = Inl NotInitialized"
  using assms
  by (simp add: saveArticle_def getArticles_def updateArticle_def deleteArticle_def
      saveFeed_def getFeeds_def searchArticles_def NotInitialized_def bindE_def Let_def)

theorem uninitialized_operations_fail_witness:
  "\<not> db closedStore
   \<and> saveArticle 1700000000000 ''0.4fzyo82mvyr'' sampleArticle closedStore = (Inl NotInitialized, closedStore)
   \<and> getArticles closedStore = Inl NotInitialized
   \<and> updateArticle (withId sampleArticle ''article_5_abc'') closedStore = (Inl NotInitialized, closedStore)
   \<and> deleteArticle ''article_5_abc'' closedStore = (Inl NotInitialized, closedStore)
   \<and> saveFeed 1700000000000 ''0.4fzyo82mvyr'' sampleFeed closedStore = (Inl NotInitialized, closedStore)
   \<and> getFeeds closedStore = Inl NotInitialized
   \<and> searchArticles ''second'' closedStore = Inl NotInitialized"
proof -
  have d: "\<not> db closedStore"
    by (simp add: closedStore_def)
  from uninitialized_operations_fail [OF d] d show ?thesis
    by simp
qed

lemma show_nat_nonempty: "show_nat n \<noteq> []"
  by (subst show_nat.simps) simp

lemma nth_digit_mem: "k < 10 \<Longrightarrow> ''0123456789'' ! k \<in> set ''0123456789''"
  by (rule nth_mem) simp

lemma show_nat_digits: "set (show_nat n) \<subseteq> set ''0123456789''"
proof (induction n rule: show_nat.induct)
  case (1 n)
  show ?case
  proof (cases "n < 10")
    case True
    then have "show_nat n = [''0123456789'' ! n]"
      by (subst show_nat.simps) simp
    with nth_digit_mem [OF True] show ?thesis by simp
  next
    case False
    then have eq: "show_nat n = show_nat (n div 10) @ [''0123456789'' ! (n mod 10)]"
      by (subst show_nat.simps) simp
    have "n mod 10 < 10" by simp
    from nth_digit_mem [OF this] "1.IH" [OF False] show ?thesis
      unfolding eq by simp
  qed
qed

lemma digit_inj:
  assumes "j < 10" "k < 10" "''0123456789'' ! j = ''0123456789'' ! k"
  shows "j = k"
proof -
  have "distinct ''0123456789''" by simp
  moreover have "j < length ''0123456789''" "k < length ''0123456789''"
    using assms by simp_all
  ultimately show ?thesis
    using assms(3) nth_eq_iff_index_eq by blast
qed

lemma show_nat_inj: "show_nat n = show_nat m \<Longrightarrow> n = m"
proof (induction n arbitrary: m rule: show_nat.induct)
  case (1 n)
  show ?case
  proof (cases "n < 10")
    case n: True
    then have en: "show_nat n = [''0123456789'' ! n]"
      by (subst show_nat.simps) simp
    show ?thesis
    proof (cases "m < 10")
      case True
      then have "show_nat m = [''0123456789'' ! m]"
        by (subst show_nat.simps) simp
      with en "1.prems" have "''0123456789'' ! n = ''0123456789'' ! m" by simp
      with n True show ?thesis by (rule digit_inj)
    next
      case False
      then have "show_nat m = show_nat (m div 10) @ [''0123456789'' ! (m mod 10)]"
        by (subst show_nat.simps) simp
      with en "1.prems" show_nat_nonempty [of "m div 10"] show ?thesis
        by (cases "show_nat (m div 10)") simp_all
    qed
  next
    case n: False
    then have en: "show_nat n = show_nat (n div 10) @ [''0123456789'' ! (n mod 10)]"
      by (subst show_nat.simps) simp
    show ?thesis
    proof (cases "m < 10")
      case True
      then have "show_nat m = [''0123456789'' ! m]"
        by (subst show_nat.simps) simp
      with en "1.prems" show_nat_nonempty [of "n div 10"] show ?thesis
        by (cases "show_nat (n div 10)") simp_all
    next
      case False
      then have "show_nat m = show_nat (m div 10) @ [''0123456789'' ! (m mod 10)]"
        by (subst show_nat.simps) simp
      with en "1.prems" have parts: "show_nat (n div 10) = show_nat (m div 10)"
        and last: "''0123456789'' ! (n mod 10) = ''0123456789'' ! (m mod 10)"
        by simp_all
      from "1.IH" [OF n parts] have d: "n div 10 = m div 10" .
      have "n mod 10 < 10" "m mod 10 < 10" by simp_all
      from digit_inj [OF this last] have r: "n mod 10 = m mod 10" .
      from d r show ?thesis
        by (metis div_mult_mod_eq)
    qed
  qed
qed

lemma show_int_no_underscore: "CHR ''_'' \<notin> set (show_int i)"
  using show_nat_digits [of "nat i"] show_nat_digits [of "nat (- i)"]
  by (auto simp: show_int_def)

lemma show_nat_no_minus: "show_nat n \<noteq> CHR ''-'' # t"
proof
  assume "show_nat n = CHR ''-'' # t"
  then have "CHR ''-'' \<in> set (show_nat n)" by simp
  with show_nat_digits [of n] show False by auto
qed

lemma show_int_inj: "show_int i = show_int j \<Longrightarrow> i = j"
proof (cases "i < 0"; cases "j < 0")
  assume "show_int i = show_int j" "i < 0" "j < 0"
  then have "nat (- i) = nat (- j)"
    by (simp add: show_int_def show_nat_inj)
  with \<open>i < 0\<close> \<open>j < 0\<close> show ?thesis by simp
next
  assume "show_int i = show_int j" "i < 0" "\<not> j < 0"
  then have "show_nat (nat j) = CHR ''-'' # show_nat (nat (- i))"
    by (simp add: show_int_def)
  with show_nat_no_minus show ?thesis by blast
next
  assume "show_int i = show_int j" "\<not> i < 0" "j < 0"
  then have "show_nat (nat i) = CHR ''-'' # show_nat (nat (- j))"
    by (simp add: show_int_def)
  with show_nat_no_minus show ?thesis by blast
next
  assume "show_int i = show_int j" "\<not> i < 0" "\<not> j < 0"
  then have "nat i = nat j"
    by (simp add: show_int_def show_nat_inj)
  with \<open>\<not> i < 0\<close> \<open>\<not> j < 0\<close> show ?thesis by simp
qed

lemma split_at_separator:
  "c \<notin> set a \<Longrightarrow> c \<notin> set b \<Longrightarrow> a @ c # x = b @ c # y \<Longrightarrow> a = b \<and> x = y"
proof (induction a arbitrary: b)
  case Nil
  then show ?case by (cases b) auto
next
  case (Cons h a)
  then show ?case by (cases b) auto
qed

lemma identifier_inj:
  assumes "p @ show_int n @ ''_'' @ r = p @ show_int n' @ ''_'' @ r'"
  shows "n = n' \<and> r = r'"
proof -
  from assms have "show_int n @ CHR ''_'' # r = show_int n' @ CHR ''_'' # r'" by simp
  from split_at_separator [OF show_int_no_underscore show_int_no_underscore this]
  show ?thesis by (simp add: show_int_inj)
qed

lemma filter_insort_fresh:
  "\<forall>y \<in> set xs. \<not> P y \<Longrightarrow> P x \<Longrightarrow> filter P (insort_key f x xs) = [x]"
  by (induction xs) auto

lemma withId_id: "a_id (withId a i) = i"
  by (simp add: withId_def ArticleData.defs Article.defs)

lemma withId_truncate: "ArticleData.truncate (withId a i) = a"
  by (simp add: withId_def ArticleData.defs Article.defs)

lemma saveArticle_Inr:
  assumes "saveArticle now r a s = (Inr i, s')"
  shows "db s" and "i = ''article_'' @ show_int now @ ''_'' @ substr r 2 9"
    and "i \<notin> set (map a_id (articles s))"
    and "s' = s\<lparr>articles := insort_key a_id (withId a i) (articles s)\<rparr>"
  using assms
  by (auto simp: saveArticle_def Let_def idb_add_def withId_id split: if_splits)


lemma saveArticle_collision:
  assumes "db s" and "i = ''article_'' @ show_int now @ ''_'' @ substr r 2 9"
    and "i \<in> set (map a_id (articles s))"
  shows "saveArticle now r a s = (Inl (ConstraintError i), s)"
  using assms by (simp add: saveArticle_def Let_def idb_add_def withId_id)

lemma saveArticle_fresh:
  assumes "db s" and "i = ''article_'' @ show_int now @ ''_'' @ substr r 2 9"
    and "i \<notin> set (map a_id (articles s))"
  shows "saveArticle now r a s
           = (Inr i, s\<lparr>articles := insort_key a_id (withId a i) (articles s)\<rparr>)"
  using assms by (simp add: saveArticle_def Let_def idb_add_def withId_id)

text \<open>
  C7. On an initialized store \<open>saveArticle\<close> returns the identifier it generated,
  unless a stored record already has it: then the store's \<^verbatim>\<open>add\<close> rejects the record
  and nothing changes. After a save that returned \<open>i\<close>, \<open>getArticles\<close> returns the
  stored records, among them exactly one with identifier \<open>i\<close>, whose other fields are
  the saved ones, besides the records stored before. The identifier differs from that
  of every record stored before, and any save call that returns \<open>i\<close> has read the same
  clock value and the same nine random characters.
\<close>

theorem saveArticle_roundtrip:
  assumes "db s" and "i = ''article_'' @ show_int now @ ''_'' @ substr r 2 9"
  shows "(if i \<in> set (map a_id (articles s))
          then saveArticle now r a s = (Inl (ConstraintError i), s)
          else fst (saveArticle now r a s) = Inr i
             \<and> getArticles (snd (saveArticle now r a s))
                 = Inr (articles (snd (saveArticle now r a s)))
             \<and> filter (\<lambda>x. a_id x = i) (articles (snd (saveArticle now r a s))) = [withId a i]
             \<and> ArticleData.truncate (withId a i) = a
             \<and> set (articles (snd (saveArticle now r a s)))
                 = insert (withId a i) (set (articles s)))
       \<and> (\<forall>now' r' a' t t'. saveArticle now' r' a' t = (Inr i, t')
             \<longrightarrow> now' = now \<and> substr r' 2 9 = substr r 2 9)"
proof (intro conjI allI impI)
  show "if i \<in> set (map a_id (articles s))
        then saveArticle now r a s = (Inl (ConstraintError i), s)
        else fst (saveArticle now r a s) = Inr i
           \<and> getArticles (snd (saveArticle now r a s))
               = Inr (articles (snd (saveArticle now r a s)))
           \<and> filter (\<lambda>x. a_id x = i) (articles (snd (saveArticle now r a s))) = [withId a i]
           \<and> ArticleData.truncate (withId a i) = a
           \<and> set (articles (snd (saveArticle now r a s)))
               = insert (withId a i) (set (articles s))"
  proof (cases "i \<in> set (map a_id (articles s))")
    case True
    with saveArticle_collision [OF assms this] show ?thesis by simp
  next
    case False
    then have none: "\<forall>y \<in> set (articles s). \<not> a_id y = i" by auto
    have hit: "a_id (withId a i) = i" by (rule withId_id)
    have one: "filter (\<lambda>x. a_id x = i) (insort_key a_id (withId a i) (articles s)) = [withId a i]"
      by (rule filter_insort_fresh [where P = "\<lambda>x. a_id x = i", OF none hit])
    from False one assms(1) show ?thesis
      by (simp add: saveArticle_fresh [OF assms False] getArticles_def withId_truncate
          set_insort_key)
  qed
next
  fix now' r' a' t t'
  assume "saveArticle now' r' a' t = (Inr i, t')"
  from saveArticle_Inr(2) [OF this] assms(2)
  have "''article_'' @ show_int now' @ ''_'' @ substr r' 2 9
          = ''article_'' @ show_int now @ ''_'' @ substr r 2 9"
    by simp
  from identifier_inj [OF this]
  show "now' = now" and "substr r' 2 9 = substr r 2 9" by simp_all
qed

lemma sample_id:
  "''article_1700000000000_4fzyo82mv''
     = ''article_'' @ show_int 1700000000000 @ ''_'' @ substr ''0.4fzyo82mvyr'' 2 9"
  by (simp add: show_int_def show_nat.simps substr_def)

lemma readyStore_simps:
  "db readyStore" "articles readyStore = [withId otherArticle ''article_5_abc'']"
  by (simp_all add: readyStore_def closedStore_def init_def)

lemma sample_save:
  "saveArticle 1700000000000 ''0.4fzyo82mvyr'' sampleArticle readyStore
     = (Inr ''article_1700000000000_4fzyo82mv'',
        readyStore\<lparr>articles := [withId sampleArticle ''article_1700000000000_4fzyo82mv'',
                                  withId otherArticle ''article_5_abc'']\<rparr>)"
proof -
  have f: "''article_1700000000000_4fzyo82mv'' \<notin> set (map a_id (articles readyStore))"
    by (simp add: readyStore_simps withId_id)
  show ?thesis
    by (simp add: saveArticle_fresh [OF readyStore_simps(1) sample_id f] readyStore_simps
        withId_id)
qed

theorem saveArticle_roundtrip_witness:
  "db readyStore
   \<and> fst (saveArticle 1700000000000 ''0.4fzyo82mvyr'' sampleArticle readyStore)
       = Inr ''article_1700000000000_4fzyo82mv''
   \<and> getArticles (snd (saveArticle 1700000000000 ''0.4fzyo82mvyr'' sampleArticle readyStore))
       = Inr [withId sampleArticle ''article_1700000000000_4fzyo82mv'',
              withId otherArticle ''article_5_abc'']
   \<and> filter (\<lambda>x. a_id x = ''article_1700000000000_4fzyo82mv'')
        (articles (snd (saveArticle 1700000000000 ''0.4fzyo82mvyr'' sampleArticle readyStore)))
       = [withId sampleArticle ''article_1700000000000_4fzyo82mv'']
   \<and> ArticleData.truncate (withId sampleArticle ''article_1700000000000_4fzyo82mv'')
       = sampleArticle"
proof -
  have f: "''article_1700000000000_4fzyo82mv'' \<notin> set (map a_id (articles readyStore))"
    by (simp add: readyStore_simps withId_id)
  from saveArticle_roundtrip [OF readyStore_simps(1) sample_id, of sampleArticle] f
  show ?thesis
    by (simp add: sample_save readyStore_simps)
qed

text \<open>
  The claim as stated fails: after the first record is deleted, a save that reads the
  same clock value and the same random string returns the identifier again.
\<close>

theorem saveArticle_identifier_repeats:
  "fst (saveArticle 1700000000000 ''0.4fzyo82mvyr'' sampleArticle readyStore)
       = Inr ''article_1700000000000_4fzyo82mv''
   \<and> fst (saveArticle 1700000000000 ''0.4fzyo82mvyr'' otherArticle
        (snd (deleteArticle ''article_1700000000000_4fzyo82mv''
           (snd (saveArticle 1700000000000 ''0.4fzyo82mvyr'' sampleArticle readyStore)))))
       = Inr ''article_1700000000000_4fzyo82mv''"
proof -
  have del: "snd (deleteArticle ''article_1700000000000_4fzyo82mv''
           (snd (saveArticle 1700000000000 ''0.4fzyo82mvyr'' sampleArticle readyStore)))
        = readyStore"
    by (simp add: sample_save deleteArticle_def idb_delete_def readyStore_simps withId_id)
  have f: "''article_1700000000000_4fzyo82mv'' \<notin> set (map a_id (articles readyStore))"
    by (simp add: readyStore_simps withId_id)
  have again: "fst (saveArticle 1700000000000 ''0.4fzyo82mvyr'' otherArticle readyStore)
        = Inr ''article_1700000000000_4fzyo82mv''"
    by (simp add: saveArticle_fresh [OF readyStore_simps(1) sample_id f])
  show ?thesis
    unfolding del by (simp add: sample_save again)
qed

section \<open>Properties of the markdown converter\<close>

lemma sel_doc_title: "parseSelector ''title'' = Some [TypeSel ''title'']"
  by code_simp

lemma sel_meta_author:
  "parseSelector ''meta[name=\"author\"]'' = Some [TypeAttrSel ''meta'' ''name'' ''author'']"
  by code_simp

lemma sel_meta_description:
  "parseSelector ''meta[name=\"description\"]'' = Some [TypeAttrSel ''meta'' ''name'' ''description'']"
  by code_simp

lemma sel_script: "parseSelector ''script'' = Some [TypeSel ''script'']"
  by code_simp

lemma sel_style: "parseSelector ''style'' = Some [TypeSel ''style'']"
  by code_simp

lemma sel_nav: "parseSelector ''nav'' = Some [TypeSel ''nav'']"
  by code_simp

lemma sel_header: "parseSelector ''header'' = Some [TypeSel ''header'']"
  by code_simp

lemma sel_footer: "parseSelector ''footer'' = Some [TypeSel ''footer'']"
  by code_simp

lemma sel_advertisement: "parseSelector ''.advertisement'' = Some [ClassSel ''advertisement'']"
  by code_simp

lemma sel_sidebar: "parseSelector ''.sidebar'' = Some [ClassSel ''sidebar'']"
  by code_simp

lemma sel_article: "parseSelector ''article'' = Some [TypeSel ''article'']"
  by code_simp

lemma sel_main: "parseSelector ''main'' = Some [TypeSel ''main'']"
  by code_simp

lemma sel_class_content: "parseSelector ''.content'' = Some [ClassSel ''content'']"
  by code_simp

lemma sel_class_post: "parseSelector ''.post'' = Some [ClassSel ''post'']"
  by code_simp

lemma sel_class_entry: "parseSelector ''.entry'' = Some [ClassSel ''entry'']"
  by code_simp

lemma elements_Cons_Element:
  "elements (Element n as cs # rest) = Element n as cs # elements cs @ elements rest"
  by (simp add: elements_def)

lemma elements_Cons_other:
  "elements (Text t # rest) = elements rest" "elements (Comment c # rest) = elements rest"
  by (simp_all add: elements_def)

lemma removeNodes_selected:
  "set (elements ns) \<subseteq> set (elements d) \<Longrightarrow>
     removeNodes (selectAll m sel d) ns = prune (matches m sel) ns"
proof (induction "selectAll m sel d" ns rule: removeNodes.induct)
  case 1
  show ?case by simp
next
  case (2 n as cs rest)
  from "2.prems" have here: "Element n as cs \<in> set (elements d)"
    and sub_cs: "set (elements cs) \<subseteq> set (elements d)"
    and sub_rest: "set (elements rest) \<subseteq> set (elements d)"
    by (simp_all add: elements_Cons_Element)
  from here have mem: "Element n as cs \<in> set (selectAll m sel d) \<longleftrightarrow> matches m sel (Element n as cs)"
    by (simp add: selectAll_def)
  show ?case
  proof (cases "matches m sel (Element n as cs)")
    case True
    with mem "2.hyps"(1) sub_rest show ?thesis by simp
  next
    case False
    with mem "2.hyps"(2,3) sub_cs sub_rest show ?thesis by simp
  qed
next
  case (3 t rest)
  then show ?case by (simp add: elements_Cons_other)
next
  case (4 c rest)
  then show ?case by (simp add: elements_Cons_other)
qed

lemma matchesCompound_shape:
  "matchesCompound m c (Element n as cs) = matchesCompound m c (Element n as cs')"
  by (cases c; cases m) (simp_all add: hasClass_def classList_def)

lemma matches_shape: "matches m sel (Element n as cs) = matches m sel (Element n as cs')"
  by (simp add: matches_def list_ex_iff matchesCompound_shape [of _ _ n as cs cs'])

lemma prune_prune:
  assumes "\<And>n as cs cs'. P (Element n as cs) = P (Element n as cs')"
  shows "prune P (prune Q ns) = prune (\<lambda>el. Q el \<or> P el) ns"
proof (induction Q ns rule: prune.induct)
  case (2 Q n as cs rest)
  then show ?case
    using assms [of n as "prune Q cs" cs] by simp
qed simp_all

lemma matches_append: "(matches m s1 el \<or> matches m s2 el) = matches m (s1 @ s2) el"
  by (auto simp: matches_def list_ex_iff)

lemma prune_matches:
  "prune (matches m s2) (prune (matches m s1) ns) = prune (matches m (s1 @ s2)) ns"
proof -
  have "prune (matches m s2) (prune (matches m s1) ns)
          = prune (\<lambda>el. matches m s1 el \<or> matches m s2 el) ns"
    by (rule prune_prune) (rule matches_shape)
  then show ?thesis by (simp add: matches_append)
qed

lemma removeElements_step:
  "parseSelector s = Some sel \<Longrightarrow>
     removeElements m (s # ss) doc = removeElements m ss (prune (matches m sel) doc)"
  by (simp add: querySelectorAll_def bindE_def removeNodes_selected)

text \<open>The seven removal passes, one selector after the other, amount to one pruning pass.\<close>

lemma removeElements_eq: "removeElements m elementsToRemove doc = Inr (stripped m doc)"
proof -
  have "removable m = matches m [TypeSel ''script'', TypeSel ''style'', TypeSel ''nav'',
          TypeSel ''header'', TypeSel ''footer'', ClassSel ''advertisement'', ClassSel ''sidebar'']"
    by (simp add: fun_eq_iff removable_def)
  then have "stripped m doc =
     prune (matches m [ClassSel ''sidebar'']) (prune (matches m [ClassSel ''advertisement''])
       (prune (matches m [TypeSel ''footer'']) (prune (matches m [TypeSel ''header''])
         (prune (matches m [TypeSel ''nav'']) (prune (matches m [TypeSel ''style''])
           (prune (matches m [TypeSel ''script'']) doc))))))"
    by (simp add: stripped_def prune_matches)
  then show ?thesis
    unfolding elementsToRemove_def
    by (simp only: removeElements_step [OF sel_script] removeElements_step [OF sel_style]
        removeElements_step [OF sel_nav] removeElements_step [OF sel_header]
        removeElements_step [OF sel_footer] removeElements_step [OF sel_advertisement]
        removeElements_step [OF sel_sidebar] removeElements.simps(1))
qed

lemma findMainContent_step:
  "parseSelector s = Some sel \<Longrightarrow>
     findMainContent m (s # ss) doc =
       (case firstMatch m sel doc of Some el \<Rightarrow> Inr (Some el) | None \<Rightarrow> findMainContent m ss doc)"
  by (simp add: querySelector_valid bindE_def)

lemma findMainContent_eq:
  "findMainContent m contentSelectors d =
     Inr (case firstMatch m [TypeSel ''article''] d of Some el \<Rightarrow> Some el | None \<Rightarrow>
          (case firstMatch m [TypeSel ''main''] d of Some el \<Rightarrow> Some el | None \<Rightarrow>
          (case firstMatch m [ClassSel ''content''] d of Some el \<Rightarrow> Some el | None \<Rightarrow>
          (case firstMatch m [ClassSel ''post''] d of Some el \<Rightarrow> Some el | None \<Rightarrow>
           firstMatch m [ClassSel ''entry''] d))))"
  unfolding contentSelectors_def
  by (simp only: findMainContent_step [OF sel_article] findMainContent_step [OF sel_main]
      findMainContent_step [OF sel_class_content] findMainContent_step [OF sel_class_post]
      findMainContent_step [OF sel_class_entry] findMainContent.simps(1))
     (simp split: option.splits)

lemma contentRoot_eq:
  "contentRoot m doc =
     Inr (case firstMatch m [TypeSel ''article''] (stripped m doc) of Some el \<Rightarrow> Some el | None \<Rightarrow>
         (case firstMatch m [TypeSel ''main''] (stripped m doc) of Some el \<Rightarrow> Some el | None \<Rightarrow>
         (case firstMatch m [ClassSel ''content''] (stripped m doc) of Some el \<Rightarrow> Some el | None \<Rightarrow>
         (case firstMatch m [ClassSel ''post''] (stripped m doc) of Some el \<Rightarrow> Some el | None \<Rightarrow>
         (case firstMatch m [ClassSel ''entry''] (stripped m doc) of Some el \<Rightarrow> Some el | None \<Rightarrow>
          body (stripped m doc))))))"
  by (simp add: contentRoot_def removeElements_eq findMainContent_eq bindE_Inr
      split: option.splits)

lemma convert_eq:
  "convertHTMLToMarkdown fetch m now doc url =
     (case contentRoot m doc of
        Inl e \<Rightarrow> Inl e
      | Inr None \<Rightarrow> Inl (TypeError ''Cannot read properties of null (reading childNodes)'')
      | Inr (Some el) \<Rightarrow>
          Inr \<lparr>conv_markdown = htmlToMarkdown m el,
               conv_title = docTitle m doc,
               conv_metadata = \<lparr>meta_title = docTitle m doc,
                                 meta_author = metaContent m ''author'' doc,
                                 meta_description = metaContent m ''description'' doc,
                                 meta_url = url, meta_extractedAt = now\<rparr>\<rparr>,
      [])"
  unfolding convertHTMLToMarkdown_def
    querySelector_valid [OF sel_doc_title] querySelector_valid [OF sel_meta_author]
    querySelector_valid [OF sel_meta_description] bindE_Inr
  by (simp add: Let_def bindE_def docTitle_def metaContent_def split: sum.splits option.splits)

text \<open>\<open>convertURL\<close> requests the page, once, and nothing else.\<close>

lemma convertURL_requests: "snd (convertURL fetch parseFromString now today url) = [url]"
  by (simp add: convertURL_def convert_eq split: sum.splits prod.splits)

lemma hasClass_no_class: "\<not> hasClass m c (Element n [] cs)"
  by (cases m) (simp_all add: hasClass_def classList_def)

lemma elements_listDoc:
  "elements (listDoc t a b) =
     [Element ''html'' []
        [Element ''head'' [] [],
         Element ''body'' []
           [Element t [] [Element ''li'' [] [Text a], Element ''li'' [] [Text b]]]],
      Element ''head'' [] [],
      Element ''body'' [] [Element t [] [Element ''li'' [] [Text a], Element ''li'' [] [Text b]]],
      Element t [] [Element ''li'' [] [Text a], Element ''li'' [] [Text b]],
      Element ''li'' [] [Text a],
      Element ''li'' [] [Text b]]"
  by (simp add: elements_def listDoc_def)

lemma stripped_listDoc:
  "stripped m (listDoc ''ol'' a b) = listDoc ''ol'' a b"
  "stripped m (listDoc ''ul'' a b) = listDoc ''ul'' a b"
  by (simp_all add: stripped_def listDoc_def removable_def matches_def hasClass_no_class)

lemma body_listDoc:
  "body (listDoc t a b) =
     Some (Element ''body'' [] [Element t [] [Element ''li'' [] [Text a], Element ''li'' [] [Text b]]])"
  by (simp add: body_def listDoc_def)

lemma contentRoot_listDoc:
  "contentRoot m (listDoc ''ol'' a b) =
     Inr (Some (Element ''body'' []
           [Element ''ol'' [] [Element ''li'' [] [Text a], Element ''li'' [] [Text b]]]))"
  "contentRoot m (listDoc ''ul'' a b) =
     Inr (Some (Element ''body'' []
           [Element ''ul'' [] [Element ''li'' [] [Text a], Element ''li'' [] [Text b]]]))"
  unfolding contentRoot_eq stripped_listDoc
  by (simp_all add: firstMatch_def selectAll_def elements_listDoc matches_def hasClass_no_class
      body_listDoc)

lemma docTitle_listDoc: "docTitle m (listDoc ''ol'' a b) = ''Untitled Article''"
  by (simp add: docTitle_def firstMatch_def selectAll_def elements_listDoc matches_def)

lemma metaContent_listDoc: "metaContent m n (listDoc ''ol'' a b) = []"
  by (simp add: metaContent_def firstMatch_def selectAll_def elements_listDoc matches_def)

lemma show_nat_1: "show_nat (Suc 0) = ''1''"
  by (simp add: show_nat.simps)

lemma show_nat_2: "show_nat (Suc (Suc 0)) = ''2''"
  by (simp add: show_nat.simps)

lemma li_items:
  "selectAll m [TypeSel ''li''] [Element ''li'' [] [Text a], Element ''li'' [] [Text b]]
     = [Element ''li'' [] [Text a], Element ''li'' [] [Text b]]"
  by (simp add: selectAll_def elements_def matches_def)

lemma markdown_ol:
  "htmlToMarkdown m (Element ''body'' []
       [Element ''ol'' [] [Element ''li'' [] [Text a], Element ''li'' [] [Text b]]])
     = ''1. '' @ a @ ''\<newline>2. '' @ b @ ''\<newline>\<newline>''"
  by (simp add: Let_def toLowerCase_def toLowerChar_def toUpperChar_def processListItems_def
      li_items show_nat_1 show_nat_2)

lemma markdown_ul:
  "htmlToMarkdown m (Element ''body'' []
       [Element ''ul'' [] [Element ''li'' [] [Text a], Element ''li'' [] [Text b]]])
     = ''- '' @ a @ ''\<newline>- '' @ b @ ''\<newline>\<newline>''"
  by (simp add: Let_def toLowerCase_def toLowerChar_def toUpperChar_def processListItems_def
      li_items)

text \<open>
  C3. For the body \<^verbatim>\<open><ol><li>A</li><li>B</li></ol>\<close> the conversion returns the two
  numbered lines and then one more line feed, the one \<open>htmlToMarkdown\<close> appends to
  every list: \<^verbatim>\<open>1. A\n2. B\n\n\<close>; for \<^verbatim>\<open>ul\<close> every line has the marker \<^verbatim>\<open>-\<close> and the
  output ends the same way. This holds for any two item texts, in either document
  mode, at any clock, URL and network.
\<close>

theorem list_conversion:
  "map_sum id conv_markdown (fst (convertHTMLToMarkdown fetch m now (listDoc ''ol'' a b) url))
     = Inr (''1. '' @ a @ ''\<newline>2. '' @ b @ ''\<newline>\<newline>'')
   \<and> map_sum id conv_markdown (fst (convertHTMLToMarkdown fetch m now (listDoc ''ul'' a b) url))
     = Inr (''- '' @ a @ ''\<newline>- '' @ b @ ''\<newline>\<newline>'')"
  by (simp add: convert_eq contentRoot_listDoc markdown_ol markdown_ul
      del: htmlToMarkdown.simps)

theorem list_conversion_witness:
  "map_sum id conv_markdown
     (fst (convertHTMLToMarkdown (\<lambda>u. Inl (FetchFailed ''offline'')) Quirks
        ''2024-01-01T00:00:00.000Z'' (listDoc ''ol'' ''A'' ''B'') ''https://example.com/a''))
     = Inr ''1. A\<newline>2. B\<newline>\<newline>''
   \<and> map_sum id conv_markdown
     (fst (convertHTMLToMarkdown (\<lambda>u. Inl (FetchFailed ''offline'')) Quirks
        ''2024-01-01T00:00:00.000Z'' (listDoc ''ul'' ''A'' ''B'') ''https://example.com/a''))
     = Inr ''- A\<newline>- B\<newline>\<newline>''"
  using list_conversion [of "\<lambda>u. Inl (FetchFailed ''offline'')" Quirks
      "''2024-01-01T00:00:00.000Z''" "''A''" "''B''" "''https://example.com/a''"]
  by simp

text \<open>The output for the ordered list is not the text the claim gives.\<close>

theorem list_conversion_extra_newline:
  "map_sum id conv_markdown
     (fst (convertHTMLToMarkdown (\<lambda>u. Inl (FetchFailed ''offline'')) Quirks
        ''2024-01-01T00:00:00.000Z'' (listDoc ''ol'' ''A'' ''B'') ''https://example.com/a''))
     \<noteq> Inr ''1. A\<newline>2. B\<newline>''"
  by (simp add: convert_eq contentRoot_listDoc markdown_ol del: htmlToMarkdown.simps)

text \<open>
  C4. \<open>convertHTMLToMarkdown\<close> requests nothing from the network, and its result does
  not depend on what the network would answer. It depends on the time of the call in
  \<^verbatim>\<open>extractedAt\<close> and nowhere else: a call at another time, with another network, fails
  with the same error, or returns the same markdown, title and metadata but for
  \<^verbatim>\<open>extractedAt\<close>, which is the time of each call.
\<close>

theorem conversion_clock_only_in_extractedAt:
  "snd (convertHTMLToMarkdown fetch m now doc url) = []
   \<and> snd (convertHTMLToMarkdown fetch' m now' doc url) = []
   \<and> (case fst (convertHTMLToMarkdown fetch m now doc url) of
        Inl e \<Rightarrow> fst (convertHTMLToMarkdown fetch' m now' doc url) = Inl e
      | Inr c \<Rightarrow>
          meta_extractedAt (conv_metadata c) = now
          \<and> fst (convertHTMLToMarkdown fetch' m now' doc url)
              = Inr (c\<lparr>conv_metadata := (conv_metadata c)\<lparr>meta_extractedAt := now'\<rparr>\<rparr>))"
  by (simp add: convert_eq split: sum.splits option.splits)

lemma convert_listDoc:
  "convertHTMLToMarkdown fetch m now (listDoc ''ol'' ''A'' ''B'') url
     = (Inr \<lparr>conv_markdown = ''1. A\<newline>2. B\<newline>\<newline>'', conv_title = ''Untitled Article'',
             conv_metadata = \<lparr>meta_title = ''Untitled Article'', meta_author = [],
                meta_description = [], meta_url = url, meta_extractedAt = now\<rparr>\<rparr>,
        [])"
  by (simp add: convert_eq contentRoot_listDoc markdown_ol docTitle_listDoc metaContent_listDoc
      del: htmlToMarkdown.simps)

theorem conversion_clock_only_in_extractedAt_witness:
  "convertHTMLToMarkdown (\<lambda>u. Inl (FetchFailed ''offline'')) Quirks
       ''2024-01-01T00:00:00.000Z'' (listDoc ''ol'' ''A'' ''B'') ''https://example.com/a''
     = (Inr \<lparr>conv_markdown = ''1. A\<newline>2. B\<newline>\<newline>'', conv_title = ''Untitled Article'',
             conv_metadata = \<lparr>meta_title = ''Untitled Article'', meta_author = [],
                meta_description = [], meta_url = ''https://example.com/a'',
                meta_extractedAt = ''2024-01-01T00:00:00.000Z''\<rparr>\<rparr>,
        [])
   \<and> convertHTMLToMarkdown (\<lambda>u. Inr ''<p>other</p>'') Quirks
       ''2024-01-01T00:00:01.000Z'' (listDoc ''ol'' ''A'' ''B'') ''https://example.com/a''
     = (Inr \<lparr>conv_markdown = ''1. A\<newline>2. B\<newline>\<newline>'', conv_title = ''Untitled Article'',
             conv_metadata = \<lparr>meta_title = ''Untitled Article'', meta_author = [],
                meta_description = [], meta_url = ''https://example.com/a'',
                meta_extractedAt = ''2024-01-01T00:00:01.000Z''\<rparr>\<rparr>,
        [])"
proof -
  have v: "fst (convertHTMLToMarkdown (\<lambda>u. Inl (FetchFailed ''offline'')) Quirks
       ''2024-01-01T00:00:00.000Z'' (listDoc ''ol'' ''A'' ''B'') ''https://example.com/a'')
     = Inr \<lparr>conv_markdown = ''1. A\<newline>2. B\<newline>\<newline>'', conv_title = ''Untitled Article'',
            conv_metadata = \<lparr>meta_title = ''Untitled Article'', meta_author = [],
               meta_description = [], meta_url = ''https://example.com/a'',
               meta_extractedAt = ''2024-01-01T00:00:00.000Z''\<rparr>\<rparr>"
    by (simp add: convert_listDoc)
  note t = conversion_clock_only_in_extractedAt
    [where fetch = "\<lambda>u. Inl (FetchFailed ''offline'')" and m = Quirks
       and now = "''2024-01-01T00:00:00.000Z''" and doc = "listDoc ''ol'' ''A'' ''B''"
       and url = "''https://example.com/a''" and fetch' = "\<lambda>u. Inr ''<p>other</p>''"
       and now' = "''2024-01-01T00:00:01.000Z''"]
  from t have s1: "snd (convertHTMLToMarkdown (\<lambda>u. Inl (FetchFailed ''offline'')) Quirks
       ''2024-01-01T00:00:00.000Z'' (listDoc ''ol'' ''A'' ''B'') ''https://example.com/a'') = []"
    and s2: "snd (convertHTMLToMarkdown (\<lambda>u. Inr ''<p>other</p>'') Quirks
       ''2024-01-01T00:00:01.000Z'' (listDoc ''ol'' ''A'' ''B'') ''https://example.com/a'') = []"
    by simp_all
  from t have f2: "fst (convertHTMLToMarkdown (\<lambda>u. Inr ''<p>other</p>'') Quirks
       ''2024-01-01T00:00:01.000Z'' (listDoc ''ol'' ''A'' ''B'') ''https://example.com/a'')
     = Inr \<lparr>conv_markdown = ''1. A\<newline>2. B\<newline>\<newline>'', conv_title = ''Untitled Article'',
            conv_metadata = \<lparr>meta_title = ''Untitled Article'', meta_author = [],
               meta_description = [], meta_url = ''https://example.com/a'',
               meta_extractedAt = ''2024-01-01T00:00:01.000Z''\<rparr>\<rparr>"
    unfolding v by simp
  from v s1 f2 s2 show ?thesis
    by (simp add: prod_eq_iff)
qed

text \<open>Two calls with the same document and URL, one second apart, return different results.\<close>

theorem conversion_differs_between_calls:
  "convertHTMLToMarkdown (\<lambda>u. Inl (FetchFailed ''offline'')) Quirks
       ''2024-01-01T00:00:00.000Z'' (listDoc ''ol'' ''A'' ''B'') ''https://example.com/a''
     \<noteq> convertHTMLToMarkdown (\<lambda>u. Inl (FetchFailed ''offline'')) Quirks
       ''2024-01-01T00:00:01.000Z'' (listDoc ''ol'' ''A'' ''B'') ''https://example.com/a''"
  by (simp add: convert_listDoc)

lemma stripped_navDoc:
  "stripped m navDoc =
     [Element ''html'' []
        [Element ''head'' [] [Element ''title'' [] [Text ''Page'']],
         Element ''body'' [] [Element ''main'' [] [Element ''p'' [] [Text ''Body'']]]]]"
  by (simp add: stripped_def navDoc_def removable_def matches_def hasClass_no_class)

lemma contentRoot_navDoc:
  "contentRoot m navDoc = Inr (Some (Element ''main'' [] [Element ''p'' [] [Text ''Body'']]))"
  unfolding contentRoot_eq stripped_navDoc
  by (simp add: firstMatch_def selectAll_def elements_def matches_def hasClass_no_class)

lemma classList_content_wide:
  "classList (Element n [(''class'', ''content wide'')] cs) = [''content'', ''wide'']"
  by (simp add: classList_def isAsciiWhitespace_def)

lemma classList_SIDEBAR: "classList (Element n [(''class'', ''SIDEBAR'')] cs) = [''SIDEBAR'']"
  by (simp add: classList_def isAsciiWhitespace_def)

lemma classList_Content: "classList (Element n [(''class'', ''Content'')] cs) = [''Content'']"
  by (simp add: classList_def isAsciiWhitespace_def)

lemma hasClass_examples:
  "hasClass m ''content'' (Element n [(''class'', ''content wide'')] cs)"
  "\<not> hasClass m ''advertisement'' (Element n [(''class'', ''content wide'')] cs)"
  "\<not> hasClass m ''sidebar'' (Element n [(''class'', ''content wide'')] cs)"
  "hasClass Quirks ''sidebar'' (Element n [(''class'', ''SIDEBAR'')] cs)"
  "\<not> hasClass NoQuirks ''sidebar'' (Element n [(''class'', ''SIDEBAR'')] cs)"
  "\<not> hasClass m ''advertisement'' (Element n [(''class'', ''SIDEBAR'')] cs)"
  "\<not> hasClass m ''content'' (Element n [(''class'', ''SIDEBAR'')] cs)"
  "\<not> hasClass m ''post'' (Element n [(''class'', ''SIDEBAR'')] cs)"
  "\<not> hasClass m ''entry'' (Element n [(''class'', ''SIDEBAR'')] cs)"
  "hasClass Quirks ''content'' (Element n [(''class'', ''Content'')] cs)"
  "\<not> hasClass NoQuirks ''content'' (Element n [(''class'', ''Content'')] cs)"
  "\<not> hasClass m ''advertisement'' (Element n [(''class'', ''Content'')] cs)"
  "\<not> hasClass m ''sidebar'' (Element n [(''class'', ''Content'')] cs)"
  "\<not> hasClass m ''post'' (Element n [(''class'', ''Content'')] cs)"
  "\<not> hasClass m ''entry'' (Element n [(''class'', ''Content'')] cs)"
  by (cases m; simp add: hasClass_def classList_content_wide classList_SIDEBAR classList_Content
      asciiLowerCase_def asciiLowerChar_def)+

lemma stripped_articleDoc: "stripped m articleDoc = articleDoc"
  by (simp add: stripped_def articleDoc_def removable_def matches_def hasClass_no_class
      hasClass_examples)

lemma firstMatch_articleDoc:
  "firstMatch m [TypeSel ''article''] (stripped m articleDoc)
     = Some (Element ''article'' [] [Element ''h1'' [] [Text ''Story'']])"
  "firstMatch m [TypeSel ''main''] (stripped m articleDoc)
     = Some (Element ''main'' [] [Element ''p'' [] [Text ''Main'']])"
  "firstMatch m [ClassSel ''content''] (stripped m articleDoc)
     = Some (Element ''div'' [(''class'', ''content wide'')] [Text ''Content''])"
  unfolding stripped_articleDoc
  by (simp_all add: firstMatch_def selectAll_def elements_def articleDoc_def matches_def
      hasClass_no_class hasClass_examples)

lemma markdown_article:
  "htmlToMarkdown m (Element ''article'' [] [Element ''h1'' [] [Text ''Story'']])
     = ''# Story\<newline>\<newline>''"
  by (simp add: Let_def toLowerCase_def toLowerChar_def toUpperChar_def)

lemma stripped_mixedCaseDoc:
  "stripped Quirks mixedCaseDoc =
     [Element ''html'' []
        [Element ''head'' [] [],
         Element ''body'' []
           [Element ''p'' [] [Text ''Out''],
            Element ''div'' [(''class'', ''Content'')] [Element ''p'' [] [Text ''In'']]]]]"
  "stripped NoQuirks mixedCaseDoc = mixedCaseDoc"
  by (simp_all add: stripped_def mixedCaseDoc_def removable_def matches_def hasClass_no_class
      hasClass_examples)

lemma contentRoot_mixedCaseDoc:
  "contentRoot Quirks mixedCaseDoc
     = Inr (Some (Element ''div'' [(''class'', ''Content'')] [Element ''p'' [] [Text ''In'']]))"
  "contentRoot NoQuirks mixedCaseDoc
     = Inr (Some (Element ''body'' []
          [Element ''div'' [(''class'', ''SIDEBAR'')] [Text ''ad''],
           Element ''p'' [] [Text ''Out''],
           Element ''div'' [(''class'', ''Content'')] [Element ''p'' [] [Text ''In'']]]))"
  unfolding contentRoot_eq stripped_mixedCaseDoc
  by (simp_all add: firstMatch_def selectAll_def elements_def mixedCaseDoc_def matches_def
      hasClass_no_class hasClass_examples body_def)

lemma markdown_mixedCaseDoc:
  "htmlToMarkdown m (Element ''div'' [(''class'', ''Content'')] [Element ''p'' [] [Text ''In'']])
     = ''In\<newline>\<newline>''"
  "htmlToMarkdown m (Element ''body'' []
          [Element ''div'' [(''class'', ''SIDEBAR'')] [Text ''ad''],
           Element ''p'' [] [Text ''Out''],
           Element ''div'' [(''class'', ''Content'')] [Element ''p'' [] [Text ''In'']]])
     = ''adOut\<newline>\<newline>In\<newline>\<newline>''"
  by (simp_all add: Let_def toLowerCase_def toLowerChar_def toUpperChar_def)

text \<open>
  C5. The removal pass comes first: it leaves the document \<open>stripped m doc\<close>, the input
  without its \<^verbatim>\<open>script\<close>, \<^verbatim>\<open>style\<close>, \<^verbatim>\<open>nav\<close>, \<^verbatim>\<open>header\<close> and \<^verbatim>\<open>footer\<close> elements and
  without the elements of class \<^verbatim>\<open>advertisement\<close> or \<^verbatim>\<open>sidebar\<close>. The content root is
  the first match in that document of \<^verbatim>\<open>article\<close>, then \<^verbatim>\<open>main\<close>, then \<^verbatim>\<open>.content\<close>,
  then \<^verbatim>\<open>.post\<close>, then \<^verbatim>\<open>.entry\<close>, and its body (if it still has one) when none matches;
  whenever an \<^verbatim>\<open>article\<close> element is left after the removal pass, the first one is
  chosen whatever else matches; and the markdown of a conversion that returns is that
  of the content root. Classes are matched as the mode \<open>m\<close> of the document has it:
  exactly in no-quirks mode, in ASCII lower case in quirks mode.
\<close>

theorem contentRoot_priority:
  "removeElements m elementsToRemove doc = Inr (stripped m doc)
   \<and> contentRoot m doc =
       Inr (case firstMatch m [TypeSel ''article''] (stripped m doc) of Some el \<Rightarrow> Some el | None \<Rightarrow>
           (case firstMatch m [TypeSel ''main''] (stripped m doc) of Some el \<Rightarrow> Some el | None \<Rightarrow>
           (case firstMatch m [ClassSel ''content''] (stripped m doc) of Some el \<Rightarrow> Some el | None \<Rightarrow>
           (case firstMatch m [ClassSel ''post''] (stripped m doc) of Some el \<Rightarrow> Some el | None \<Rightarrow>
           (case firstMatch m [ClassSel ''entry''] (stripped m doc) of Some el \<Rightarrow> Some el | None \<Rightarrow>
            body (stripped m doc))))))
   \<and> (\<forall>el. firstMatch m [TypeSel ''article''] (stripped m doc) = Some el
          \<longrightarrow> contentRoot m doc = Inr (Some el))
   \<and> (\<forall>c. fst (convertHTMLToMarkdown fetch m now doc url) = Inr c
          \<longrightarrow> contentRoot m doc = Inr (Some (the (projr (contentRoot m doc))))
              \<and> conv_markdown c = htmlToMarkdown m (the (projr (contentRoot m doc))))"
proof (intro conjI allI impI)
  show "removeElements m elementsToRemove doc = Inr (stripped m doc)"
    by (rule removeElements_eq)
  show "contentRoot m doc =
       Inr (case firstMatch m [TypeSel ''article''] (stripped m doc) of Some el \<Rightarrow> Some el | None \<Rightarrow>
           (case firstMatch m [TypeSel ''main''] (stripped m doc) of Some el \<Rightarrow> Some el | None \<Rightarrow>
           (case firstMatch m [ClassSel ''content''] (stripped m doc) of Some el \<Rightarrow> Some el | None \<Rightarrow>
           (case firstMatch m [ClassSel ''post''] (stripped m doc) of Some el \<Rightarrow> Some el | None \<Rightarrow>
           (case firstMatch m [ClassSel ''entry''] (stripped m doc) of Some el \<Rightarrow> Some el | None \<Rightarrow>
            body (stripped m doc))))))"
    by (rule contentRoot_eq)
next
  fix el
  assume "firstMatch m [TypeSel ''article''] (stripped m doc) = Some el"
  then show "contentRoot m doc = Inr (Some el)"
    by (simp add: contentRoot_eq)
next
  fix c
  assume c: "fst (convertHTMLToMarkdown fetch m now doc url) = Inr c"
  then obtain el where el: "contentRoot m doc = Inr (Some el)"
    by (cases "contentRoot m doc") (auto simp: convert_eq split: option.splits)
  from el show "contentRoot m doc = Inr (Some (the (projr (contentRoot m doc))))"
    by simp
  from c el show "conv_markdown c = htmlToMarkdown m (the (projr (contentRoot m doc)))"
    by (auto simp: convert_eq simp del: htmlToMarkdown.simps)
qed

theorem contentRoot_priority_witness:
  "firstMatch Quirks [TypeSel ''main''] (stripped Quirks articleDoc)
     = Some (Element ''main'' [] [Element ''p'' [] [Text ''Main'']])
   \<and> firstMatch Quirks [ClassSel ''content''] (stripped Quirks articleDoc)
     = Some (Element ''div'' [(''class'', ''content wide'')] [Text ''Content''])
   \<and> firstMatch Quirks [TypeSel ''article''] (stripped Quirks articleDoc)
     = Some (Element ''article'' [] [Element ''h1'' [] [Text ''Story'']])
   \<and> contentRoot Quirks articleDoc
     = Inr (Some (Element ''article'' [] [Element ''h1'' [] [Text ''Story'']]))
   \<and> map_sum id conv_markdown
       (fst (convertHTMLToMarkdown (\<lambda>u. Inl (FetchFailed ''offline'')) Quirks
          ''2024-01-01T00:00:00.000Z'' articleDoc ''https://example.com/a''))
     = Inr ''# Story\<newline>\<newline>''
   \<and> map_sum id conv_markdown
       (fst (convertHTMLToMarkdown (\<lambda>u. Inl (FetchFailed ''offline'')) Quirks
          ''2024-01-01T00:00:00.000Z'' mixedCaseDoc ''https://example.com/a''))
     = Inr ''In\<newline>\<newline>''
   \<and> map_sum id conv_markdown
       (fst (convertHTMLToMarkdown (\<lambda>u. Inl (FetchFailed ''offline'')) NoQuirks
          ''2024-01-01T00:00:00.000Z'' mixedCaseDoc ''https://example.com/a''))
     = Inr ''adOut\<newline>\<newline>In\<newline>\<newline>''"
proof -
  have r: "contentRoot Quirks articleDoc
     = Inr (Some (Element ''article'' [] [Element ''h1'' [] [Text ''Story'']]))"
    using contentRoot_priority [of Quirks articleDoc "\<lambda>u. Inl (FetchFailed ''offline'')"
        "''2024-01-01T00:00:00.000Z''" "''https://example.com/a''"] firstMatch_articleDoc(1)
    by simp
  have a: "map_sum id conv_markdown
       (fst (convertHTMLToMarkdown (\<lambda>u. Inl (FetchFailed ''offline'')) Quirks
          ''2024-01-01T00:00:00.000Z'' articleDoc ''https://example.com/a''))
     = Inr ''# Story\<newline>\<newline>''"
    by (simp add: convert_eq r markdown_article del: htmlToMarkdown.simps)
  have q: "map_sum id conv_markdown
       (fst (convertHTMLToMarkdown (\<lambda>u. Inl (FetchFailed ''offline'')) Quirks
          ''2024-01-01T00:00:00.000Z'' mixedCaseDoc ''https://example.com/a''))
     = Inr ''In\<newline>\<newline>''"
    by (simp add: convert_eq contentRoot_mixedCaseDoc markdown_mixedCaseDoc
        del: htmlToMarkdown.simps)
  have n: "map_sum id conv_markdown
       (fst (convertHTMLToMarkdown (\<lambda>u. Inl (FetchFailed ''offline'')) NoQuirks
          ''2024-01-01T00:00:00.000Z'' mixedCaseDoc ''https://example.com/a''))
     = Inr ''adOut\<newline>\<newline>In\<newline>\<newline>''"
    by (simp add: convert_eq contentRoot_mixedCaseDoc markdown_mixedCaseDoc
        del: htmlToMarkdown.simps)
  from r a q n firstMatch_articleDoc [of Quirks] show ?thesis
    by simp
qed

text \<open>
  The claim as stated fails on a page whose \<^verbatim>\<open>article\<close> stands inside \<^verbatim>\<open>nav\<close>: an
  \<^verbatim>\<open>article\<close> element exists in the input, and the content root is the \<^verbatim>\<open>main\<close>
  element (in either mode; the page has no doctype, so its mode is quirks).
\<close>

theorem contentRoot_article_in_nav:
  "hasElement navDoc ''article''
   \<and> contentRoot Quirks navDoc
       = Inr (Some (Element ''main'' [] [Element ''p'' [] [Text ''Body'']]))
   \<and> \<not> isElementNamed ''article'' (Element ''main'' [] [Element ''p'' [] [Text ''Body'']])"
proof -
  have "hasElement navDoc ''article''"
    by (simp add: hasElement_def elements_def navDoc_def)
  with contentRoot_navDoc [of Quirks] show ?thesis
    by simp
qed

end
